theory Spec2Isabelle
  imports Complex_Main "HOL-Library.Sublist" "HOL-Library.Log_Nat"
begin

section \<open>Conventions of the embedding\<close>

text \<open>
  The development embeds the memory retrieval and ranking engine
  (\<^verbatim>\<open>app/retrieval.py\<close>, \<^verbatim>\<open>app/memory_service.py\<close>) and the token-budgeted prompt
  assembler (\<^verbatim>\<open>app/prompt_builder.py\<close>) of PersonaMem.

  \<^item> A Python \<^verbatim>\<open>float\<close> is the real number it denotes. The two scorer functions compute on
    exact reals, with \<^verbatim>\<open>round(x, 4)\<close> as rounding to the nearest multiple of \<open>1/10000\<close>,
    ties to the even neighbour. In the ranking engine, where the order of the result
    depends on the last bit of a score, every literal, product, quotient and sum is rounded
    to the nearest IEEE double (\<open>fl\<close>, ties to the even mantissa), and \<^verbatim>\<open>round(x, 4)\<close> is
    the double nearest to the decimal rounding of the exact value of \<open>x\<close>, as CPython
    computes it. Overflow to infinity and NaN are not modelled.
  \<^item> Python \<^verbatim>\<open>int\<close> is \<open>int\<close>; \<^verbatim>\<open>//\<close> is \<open>div\<close> (both round towards minus infinity).
  \<^item> Python \<^verbatim>\<open>str\<close> is \<open>string\<close>, one \<open>char\<close> per code point; \<^verbatim>\<open>lower()\<close> and
    \<^verbatim>\<open>upper()\<close> act on the ASCII letters.
  \<^item> A \<^verbatim>\<open>datetime\<close> is a real number of seconds; the clock \<^verbatim>\<open>datetime.utcnow()\<close> is the
    explicit argument \<open>now\<close>.
  \<^item> The sentence-transformer model and the FAISS nearest-neighbour search are libraries
    outside the repository: they are function parameters (\<open>encode\<close>, \<open>search\<close>), and a
    flat FAISS index is the list of its vectors in insertion order.
\<close>

subsection \<open>Python primitives\<close>

datatype py_error = IndexError | AssertionError

text \<open>The list read \<^verbatim>\<open>xs[i]\<close>: a position, or a negative offset from the end, else the error.\<close>

definition py_getitem :: "'a list \<Rightarrow> int \<Rightarrow> py_error + 'a" where
  "py_getitem xs i =
     (if 0 \<le> i \<and> i < int (length xs) then Inr (xs ! nat i)
      else if i < 0 \<and> - int (length xs) \<le> i then Inr (xs ! nat (int (length xs) + i))
      else Inl IndexError)"

text \<open>\<^verbatim>\<open>xs[:n]\<close>: a negative bound drops \<open>-n\<close> elements from the end.\<close>

definition py_slice_to :: "'a list \<Rightarrow> int \<Rightarrow> 'a list" where
  "py_slice_to xs n =
     (if 0 \<le> n then take (nat n) xs else take (nat (int (length xs) + n)) xs)"

text \<open>\<^verbatim>\<open>sep.join(parts)\<close>\<close>

fun join :: "string \<Rightarrow> string list \<Rightarrow> string" where
  "join sep [] = []"
| "join sep [x] = x"
| "join sep (x # y # ys) = x @ sep @ join sep (y # ys)"

definition lower_char :: "char \<Rightarrow> char" where
  "lower_char c =
     (let n = (of_char c :: nat) in if 65 \<le> n \<and> n \<le> 90 then char_of (n + 32) else c)"

definition upper_char :: "char \<Rightarrow> char" where
  "upper_char c =
     (let n = (of_char c :: nat) in if 97 \<le> n \<and> n \<le> 122 then char_of (n - 32) else c)"

definition str_lower :: "string \<Rightarrow> string" where
  "str_lower s = map lower_char s"

definition str_upper :: "string \<Rightarrow> string" where
  "str_upper s = map upper_char s"

text \<open>\<^verbatim>\<open>round(x)\<close> on an exact real: nearest integer, a tie goes to the even one.\<close>

definition round_half_even :: "real \<Rightarrow> int" where
  "round_half_even x =
     (let f = \<lfloor>x\<rfloor>; d = x - of_int f
      in if d < 1 / 2 then f else if 1 / 2 < d then f + 1 else if even f then f else f + 1)"

text \<open>\<^verbatim>\<open>round(x, 4)\<close>\<close>

definition py_round4 :: "real \<Rightarrow> real" where
  "py_round4 x = of_int (round_half_even (x * 10000)) / 10000"

subsection \<open>Double-precision arithmetic\<close>

text \<open>The exponent \<open>e\<close> with \<open>2^e \<le> |x| < 2^(e+1)\<close>, for \<open>x\<close> other than zero.\<close>

definition binade :: "real \<Rightarrow> int" where
  "binade x =
     (if 1 \<le> \<bar>x\<bar> then bitlen \<lfloor>\<bar>x\<bar>\<rfloor> - 1 else - bitlen (\<lceil>1 / \<bar>x\<bar>\<rceil> - 1))"

text \<open>
  Rounding to the nearest double: 53 bits of mantissa, the exponent not below that of
  the subnormal numbers, a tie to the even mantissa.
\<close>

definition fl :: "real \<Rightarrow> real" where
  "fl x =
     (if x = 0 then 0
      else let e = max (binade x) (- 1022); ulp = 2 powi (e - 52)
           in of_int (round_half_even (x / ulp)) * ulp)"

text \<open>The operators \<^verbatim>\<open>*\<close>, \<^verbatim>\<open>+\<close> and \<^verbatim>\<open>/\<close> on two doubles.\<close>

definition fmul :: "real \<Rightarrow> real \<Rightarrow> real" where
  "fmul a b = fl (a * b)"

definition fadd :: "real \<Rightarrow> real \<Rightarrow> real" where
  "fadd a b = fl (a + b)"

definition fdiv :: "real \<Rightarrow> real \<Rightarrow> real" where
  "fdiv a b = fl (a / b)"

text \<open>\<^verbatim>\<open>round(x, 4)\<close> on a double.\<close>

definition float_round4 :: "real \<Rightarrow> real" where
  "float_round4 x = fl (py_round4 x)"

section \<open>Relevance scorer (\<^verbatim>\<open>app/memory_service.py\<close>)\<close>

definition EMOTIONAL_KEYWORDS :: "string list" where
  "EMOTIONAL_KEYWORDS =
     [''love'', ''hate'', ''fear'', ''happy'', ''sad'', ''excited'', ''angry'', ''worried'',
      ''important'', ''critical'', ''urgent'', ''emergency'', ''always'', ''never'',
      ''prefer'', ''goal'', ''dream'', ''wish'', ''need'', ''must'', ''remember'']"

definition FACTUAL_KEYWORDS :: "string list" where
  "FACTUAL_KEYWORDS =
     [''my name'', ''i am'', ''i work'', ''i live'', ''i study'', ''i have'',
      ''my job'', ''my career'', ''my hobby'', ''i like'', ''i dislike'',
      ''i want'', ''i need'', ''my goal'', ''my project'']"

text \<open>
  \<^verbatim>\<open>sum(1 for kw in KEYWORDS if kw in lower)\<close>: the number of keywords of the set that
  occur as a contiguous substring.
\<close>

definition keyword_hits :: "string list \<Rightarrow> string \<Rightarrow> nat" where
  "keyword_hits kws lower = length (filter (\<lambda>kw. sublist kw lower) kws)"

definition compute_importance_score :: "string \<Rightarrow> int \<Rightarrow> real" where
  "compute_importance_score content reinforcement_count =
     (let score = 0.3;
          lower = str_lower content;
          emotional_hits = keyword_hits EMOTIONAL_KEYWORDS lower;
          score = score + min (real emotional_hits * 0.05) 0.25;
          factual_hits = keyword_hits FACTUAL_KEYWORDS lower;
          score = score + min (real factual_hits * 0.08) 0.24;
          score = (if 100 < length content then score + 0.05 else score);
          score = (if 300 < length content then score + 0.05 else score);
          score = score + min (real_of_int (reinforcement_count - 1) * 0.02) 0.1
      in min (py_round4 score) 1.0)"

definition compute_recency_score :: "real \<Rightarrow> real \<Rightarrow> real" where
  "compute_recency_score now ts =
     (let age_hours = (now - ts) / 3600
      in if age_hours < 1 then 1.0
         else if age_hours < 24 then 0.85
         else if age_hours < 168 then 0.65
         else if age_hours < 720 then 0.45
         else if age_hours < 8760 then 0.25
         else 0.1)"

section \<open>Configuration (\<^verbatim>\<open>app/config.py\<close>)\<close>

record Settings =
  TOP_K_MEMORIES :: int
  MAX_CONTEXT_TOKENS :: int
  WEIGHT_SEMANTIC :: real
  WEIGHT_RECENCY :: real
  WEIGHT_IMPORTANCE :: real
  WEIGHT_FREQUENCY :: real
  WEIGHT_PERSONAL :: real
  SESSION_WINDOW :: int

definition settings :: Settings where
  "settings =
     \<lparr>TOP_K_MEMORIES = 5, MAX_CONTEXT_TOKENS = 1800,
      WEIGHT_SEMANTIC = 0.4, WEIGHT_RECENCY = 0.2, WEIGHT_IMPORTANCE = 0.2,
      WEIGHT_FREQUENCY = 0.1, WEIGHT_PERSONAL = 0.1, SESSION_WINDOW = 6\<rparr>"

section \<open>Storage (\<^verbatim>\<open>app/models.py\<close>, the files under \<^verbatim>\<open>FAISS_INDEX_DIR\<close>)\<close>

text \<open>
  A row of the \<^verbatim>\<open>memories\<close> table; the primary key \<^verbatim>\<open>id\<close> is \<open>mem_id\<close>. The JSON column
  \<^verbatim>\<open>metadata_json\<close> is read and written by none of the functions below and is left out.
\<close>

record memory =
  mem_id :: string
  user_id :: string
  memory_type :: string
  content :: string
  importance_score :: real
  last_accessed :: real
  reinforcement_count :: int
  timestamp :: real
  faiss_index_id :: "int option"
  session_id :: "string option"

type_synonym vec = "real list"

text \<open>
  The state the engine reads and writes: the table (rows in storage order) and, per user,
  the two files \<^verbatim>\<open>user_<id>.index\<close> (the vectors of the flat index, slot \<open>i\<close> at
  position \<open>i\<close>) and \<^verbatim>\<open>user_<id>.meta\<close> (the pickled identifier list).
\<close>

record db_state =
  memories :: "memory list"
  index_files :: "string \<rightharpoonup> vec list"
  meta_files :: "string \<rightharpoonup> string list"

section \<open>Vector index store (\<^verbatim>\<open>app/retrieval.py\<close>)\<close>

text \<open>\<^verbatim>\<open>model.encode([text])[0]\<close> and \<^verbatim>\<open>model.encode(texts)\<close>, one row per text.\<close>

definition embed_text :: "(string list \<Rightarrow> vec list) \<Rightarrow> string \<Rightarrow> vec" where
  "embed_text encode text = hd (encode [text])"

definition embed_texts :: "(string list \<Rightarrow> vec list) \<Rightarrow> string list \<Rightarrow> vec list" where
  "embed_texts encode texts = (if texts = [] then [] else encode texts)"

definition load_faiss_index :: "db_state \<Rightarrow> string \<Rightarrow> vec list option \<times> string list" where
  "load_faiss_index s uid =
     (case index_files s uid of
        None \<Rightarrow> (None, [])
      | Some index \<Rightarrow>
          (case meta_files s uid of
             None \<Rightarrow> (None, [])
           | Some memory_ids \<Rightarrow> (Some index, memory_ids)))"

definition save_faiss_index :: "db_state \<Rightarrow> string \<Rightarrow> vec list \<Rightarrow> string list \<Rightarrow> db_state" where
  "save_faiss_index s uid index memory_ids =
     s\<lparr>index_files := (index_files s)(uid \<mapsto> index),
       meta_files := (meta_files s)(uid \<mapsto> memory_ids)\<rparr>"

text \<open>Returns the assigned slot and the state after the two files are written.\<close>

definition add_memory_to_index ::
  "(string list \<Rightarrow> vec list) \<Rightarrow> db_state \<Rightarrow> string \<Rightarrow> string \<Rightarrow> string \<Rightarrow> int \<times> db_state" where
  "add_memory_to_index encode s uid memory_id text =
     (let (index, memory_ids) = load_faiss_index s uid;
          embedding = embed_text encode text;
          (index, memory_ids) =
            (case index of None \<Rightarrow> ([], []) | Some ix \<Rightarrow> (ix, memory_ids));
          index = index @ [embedding];
          faiss_id = int (length memory_ids);
          memory_ids = memory_ids @ [memory_id]
      in (faiss_id, save_faiss_index s uid index memory_ids))"

text \<open>
  \<^verbatim>\<open>get_memories_by_user\<close> of \<^verbatim>\<open>app/memory_service.py\<close>: the user's rows, of one type when
  a non-empty type is given, newest first, at most \<open>limit\<close> of them. Rows with equal
  timestamps stay in storage order.
\<close>

definition get_memories_by_user :: "db_state \<Rightarrow> string \<Rightarrow> string option \<Rightarrow> nat \<Rightarrow> memory list" where
  "get_memories_by_user s uid mtype limit =
     (let q = filter (\<lambda>m. user_id m = uid) (memories s);
          q = (case mtype of
                 None \<Rightarrow> q
               | Some t \<Rightarrow> if t = [] then q else filter (\<lambda>m. memory_type m = t) q)
      in take limit (sort_key (\<lambda>m. - timestamp m) q))"

text \<open>\<^verbatim>\<open>mem.faiss_index_id = i\<close> followed by the commit: the row with that key is updated.\<close>

definition set_faiss_index_id :: "memory list \<Rightarrow> string \<Rightarrow> int \<Rightarrow> memory list" where
  "set_faiss_index_id rows key i =
     map (\<lambda>row. if mem_id row = key then row\<lparr>faiss_index_id := Some i\<rparr> else row) rows"

text \<open>\<^verbatim>\<open>for i, mem in enumerate(memories): mem.faiss_index_id = i\<close>, counting from \<open>i\<close>.\<close>

fun restamp :: "nat \<Rightarrow> memory list \<Rightarrow> memory list \<Rightarrow> memory list" where
  "restamp i [] rows = rows"
| "restamp i (mem # mems) rows = restamp (Suc i) mems (set_faiss_index_id rows (mem_id mem) (int i))"

definition rebuild_user_index ::
  "(string list \<Rightarrow> vec list) \<Rightarrow> db_state \<Rightarrow> string \<Rightarrow> db_state" where
  "rebuild_user_index encode s uid =
     (let mems = get_memories_by_user s uid (Some ''semantic'') 100
      in if mems = [] then s
         else
           let texts = map content mems;
               embeddings = embed_texts encode texts;
               index = embeddings;
               memory_ids = map mem_id mems;
               s = s\<lparr>memories := restamp 0 mems (memories s)\<rparr>
           in save_faiss_index s uid index memory_ids)"

section \<open>Ranking engine (\<^verbatim>\<open>app/retrieval.py\<close>)\<close>

text \<open>The dictionary appended to \<^verbatim>\<open>candidates\<close>; \<^verbatim>\<open>isoformat()\<close> keeps the timestamp.\<close>

record candidate =
  cand_id :: string
  cand_content :: string
  cand_memory_type :: string
  cand_importance_score :: real
  semantic_similarity :: real
  recency_score :: real
  composite_score :: real
  cand_timestamp :: real
  cand_reinforcement_count :: int

text \<open>
  The value of the local variable \<^verbatim>\<open>composite\<close> for one hit, in doubles: the similarity
  is \<^verbatim>\<open>float(dist)\<close>, the recency is the literal that \<open>compute_recency_score\<close> returns,
  the importance is \<^verbatim>\<open>float(mem.importance_score)\<close>, the weights are the literals of
  \<open>settings\<close>, and the sum associates to the left.
\<close>

definition composite :: "real \<Rightarrow> real \<Rightarrow> memory \<Rightarrow> real" where
  "composite now dst mem =
     (let semantic_sim = fl dst;
          recency = fl (compute_recency_score now (timestamp mem));
          importance = fl (importance_score mem);
          frequency = min (fdiv (fl (real_of_int (reinforcement_count mem))) (fl 20.0)) (fl 1.0);
          personal = (if memory_type mem \<in> set [''profile'', ''episodic'']
                      then fl 0.8 else fl 0.5)
      in fadd (fadd (fadd (fadd
           (fmul (fl (WEIGHT_SEMANTIC settings)) semantic_sim)
           (fmul (fl (WEIGHT_RECENCY settings)) recency))
           (fmul (fl (WEIGHT_IMPORTANCE settings)) importance))
           (fmul (fl (WEIGHT_FREQUENCY settings)) frequency))
           (fmul (fl (WEIGHT_PERSONAL settings)) personal))"

definition make_candidate :: "real \<Rightarrow> real \<Rightarrow> memory \<Rightarrow> candidate" where
  "make_candidate now dst mem =
     \<lparr>cand_id = mem_id mem,
      cand_content = content mem,
      cand_memory_type = memory_type mem,
      cand_importance_score = fl (importance_score mem),
      semantic_similarity = float_round4 (fl dst),
      recency_score = float_round4 (fl (compute_recency_score now (timestamp mem))),
      composite_score = float_round4 (composite now dst mem),
      cand_timestamp = timestamp mem,
      cand_reinforcement_count = reinforcement_count mem\<rparr>"

text \<open>
  The loop over \<^verbatim>\<open>zip(distances[0], indices[0])\<close>. The list read \<^verbatim>\<open>memory_ids[idx]\<close> can
  raise; the query \<^verbatim>\<open>.filter(id == mem_id, user_id == user_id).first()\<close> is the first
  matching row or \<^verbatim>\<open>None\<close>.
\<close>

fun collect_candidates ::
  "real \<Rightarrow> db_state \<Rightarrow> string \<Rightarrow> string list \<Rightarrow> (real \<times> int) list \<Rightarrow> py_error + candidate list" where
  "collect_candidates now s uid memory_ids [] = Inr []"
| "collect_candidates now s uid memory_ids ((dst, idx) # hits) =
     (if idx < 0 \<or> int (length memory_ids) \<le> idx
      then collect_candidates now s uid memory_ids hits
      else
        (case py_getitem memory_ids idx of
           Inl e \<Rightarrow> Inl e
         | Inr key \<Rightarrow>
             (case find (\<lambda>m. mem_id m = key \<and> user_id m = uid) (memories s) of
                None \<Rightarrow> collect_candidates now s uid memory_ids hits
              | Some mem \<Rightarrow>
                  (case collect_candidates now s uid memory_ids hits of
                     Inl e \<Rightarrow> Inl e
                   | Inr cands \<Rightarrow> Inr (make_candidate now dst mem # cands)))))"

text \<open>
  \<open>search index query_vec k\<close> is \<^verbatim>\<open>index.search(query_vec, k)\<close> as the list of
  (similarity, slot) pairs; the call asserts \<open>k > 0\<close>, so for a \<open>top_k\<close> that is not
  positive it raises. \<^verbatim>\<open>candidates.sort(key=..., reverse=True)\<close> is a stable sort
  in descending order of the key (equal keys keep their order), which is the stable
  ascending sort on the negated key. The result is paired with the state after the call.
\<close>

definition retrieve_relevant_memories ::
  "(vec list \<Rightarrow> vec \<Rightarrow> int \<Rightarrow> (real \<times> int) list) \<Rightarrow> (string list \<Rightarrow> vec list) \<Rightarrow> real \<Rightarrow>
   db_state \<Rightarrow> string \<Rightarrow> string \<Rightarrow> int option \<Rightarrow> (py_error + candidate list) \<times> db_state" where
  "retrieve_relevant_memories search encode now s uid query top_k_opt =
     (let top_k = (case top_k_opt of None \<Rightarrow> TOP_K_MEMORIES settings | Some k \<Rightarrow> k);
          (index_opt, memory_ids) = load_faiss_index s uid
      in case index_opt of
           None \<Rightarrow> (Inr [], s)
         | Some index \<Rightarrow>
             if length index = 0 then (Inr [], s)
             else
               let query_vec = embed_text encode query;
                   k = min (top_k * 3) (int (length index))
               in if k \<le> 0 then (Inl AssertionError, s)
                  else
                    let hits = search index query_vec k
                    in case collect_candidates now s uid memory_ids hits of
                         Inl e \<Rightarrow> (Inl e, s)
                       | Inr cands \<Rightarrow>
                           (Inr (py_slice_to (sort_key (\<lambda>x. - composite_score x) cands) top_k),
                            s))"

section \<open>Prompt assembler (\<^verbatim>\<open>app/prompt_builder.py\<close>)\<close>

definition estimate_tokens :: "string \<Rightarrow> int" where
  "estimate_tokens text = max 1 (int (length text) div 4)"

definition truncate_to_tokens :: "string \<Rightarrow> int \<Rightarrow> string" where
  "truncate_to_tokens text max_tokens =
     (let max_chars = max_tokens * 4
      in if int (length text) \<le> max_chars then text
         else py_slice_to text max_chars @ ''...'')"

definition nl :: string where
  "nl = [CHR 0x0A]"

text \<open>
  The five lines of the constant. The dash of the last line (U+2014, one code point) is
  the single character \<open>0x97\<close>.
\<close>

definition SYSTEM_INSTRUCTION :: string where
  "SYSTEM_INSTRUCTION =
     ''You are PersonaMem, an intelligent AI assistant with persistent memory about the user. '' @ nl @
     ''You remember past conversations, personal details, and preferences. '' @ nl @
     ''Use the provided context to give personalized, helpful responses.'' @ nl @
     ''Be concise, clear, and adapt your tone to the user'' @ [CHR 0x27] @ ''s style.'' @ nl @
     ''Never mention that you are reading from stored memory '' @ [CHR 0x97] @
     '' just respond naturally.''"

text \<open>
  The columns of \<^verbatim>\<open>user_profiles\<close> that the summary reads. A column that is \<^verbatim>\<open>None\<close> is
  falsy like the empty value and is represented by it.
\<close>

record user_profile =
  display_name :: string
  expertise_level :: string
  communication_style :: string
  interests :: "string list"
  goals :: "string list"

definition build_profile_summary :: "user_profile option \<Rightarrow> string" where
  "build_profile_summary profile_opt =
     (case profile_opt of
        None \<Rightarrow> []
      | Some profile \<Rightarrow>
          let parts = [];
              parts = (if display_name profile \<noteq> []
                       then parts @ [''Name: '' @ display_name profile] else parts);
              parts = (if expertise_level profile \<noteq> []
                       then parts @ [''Expertise: '' @ expertise_level profile] else parts);
              parts = (if communication_style profile \<noteq> []
                       then parts @ [''Style: '' @ communication_style profile] else parts);
              parts = (if interests profile \<noteq> []
                       then parts @ [''Interests: '' @ join '', '' (py_slice_to (interests profile) 5)]
                       else parts);
              parts = (if goals profile \<noteq> []
                       then parts @ [''Goals: '' @ join ''; '' (py_slice_to (goals profile) 3)]
                       else parts)
          in if parts = [] then [] else ''USER PROFILE:'' @ nl @ join nl parts)"

definition build_memory_context :: "candidate list \<Rightarrow> string" where
  "build_memory_context retrieved_memories =
     (if retrieved_memories = [] then []
      else join nl
             (''RELEVANT MEMORIES:'' #
              map (\<lambda>mem. (''['' @ str_upper (cand_memory_type mem) @ '']'') @ '' '' @ cand_content mem)
                  retrieved_memories))"

record message =
  role :: string
  msg_content :: string

definition build_session_summary :: "message list \<Rightarrow> string" where
  "build_session_summary session_messages =
     (if session_messages = [] then []
      else join nl
             (''RECENT CONVERSATION:'' #
              map (\<lambda>msg. (if role msg = ''user'' then ''User'' else ''Assistant'') @ '': '' @
                          py_slice_to (msg_content msg) 300)
                  session_messages))"

text \<open>The f-string \<^verbatim>\<open>"\nUser: {user_query}\nAssistant:"\<close>.\<close>

definition query_part :: "string \<Rightarrow> string" where
  "query_part user_query = nl @ ''User: '' @ user_query @ nl @ ''Assistant:''"

definition build_prompt ::
  "string \<Rightarrow> user_profile option \<Rightarrow> candidate list \<Rightarrow> message list \<Rightarrow> int \<Rightarrow> string" where
  "build_prompt user_query profile retrieved_memories session_messages max_tokens =
     (let system_part = SYSTEM_INSTRUCTION;
          qpart = query_part user_query;
          reserved = estimate_tokens system_part + estimate_tokens qpart + 50;
          remaining = max_tokens - reserved;
          profile_text = build_profile_summary profile;
          profile_tokens = estimate_tokens profile_text;
          profile_text = (if remaining div 4 < profile_tokens
                          then truncate_to_tokens profile_text (remaining div 4) else profile_text);
          profile_tokens = estimate_tokens profile_text;
          remaining = remaining - profile_tokens;
          memory_text = build_memory_context retrieved_memories;
          memory_tokens = estimate_tokens memory_text;
          memory_budget = remaining div 2;
          memory_text = (if memory_budget < memory_tokens
                         then truncate_to_tokens memory_text memory_budget else memory_text);
          memory_tokens = estimate_tokens memory_text;
          remaining = remaining - memory_tokens;
          session_text = build_session_summary session_messages;
          session_text = (if remaining < estimate_tokens session_text
                          then truncate_to_tokens session_text remaining else session_text);
          sections = [system_part];
          sections = (if profile_text \<noteq> [] then sections @ [profile_text] else sections);
          sections = (if memory_text \<noteq> [] then sections @ [memory_text] else sections);
          sections = (if session_text \<noteq> [] then sections @ [session_text] else sections);
          sections = sections @ [qpart]
      in join (nl @ nl) sections)"

section \<open>Definitions taken from the specification\<close>

text \<open>
  The importance formula as the specification words it, before clamping and rounding:
  baseline, emotional weight, factual weight, the two length bonuses, reinforcement.
\<close>

definition importance_spec :: "string \<Rightarrow> int \<Rightarrow> real" where
  "importance_spec c n =
     0.3 + min (real (keyword_hits EMOTIONAL_KEYWORDS (str_lower c)) * 0.05) 0.25
         + min (real (keyword_hits FACTUAL_KEYWORDS (str_lower c)) * 0.08) 0.24
         + (if 100 < length c then 0.05 else 0)
         + (if 300 < length c then 0.05 else 0)
         + min (real_of_int (n - 1) * 0.02) 0.1"

text \<open>
  The specification's composite score with the default weights, on the five factors of
  one memory, the products and the sums in doubles.
\<close>

definition weighted_sum :: "real \<Rightarrow> real \<Rightarrow> real \<Rightarrow> real \<Rightarrow> real \<Rightarrow> real" where
  "weighted_sum similarity recency importance frequency personal =
     fadd (fadd (fadd (fadd
       (fmul (fl 0.4) similarity)
       (fmul (fl 0.2) recency))
       (fmul (fl 0.2) importance))
       (fmul (fl 0.1) frequency))
       (fmul (fl 0.1) personal)"

text \<open>The specification's measure of a text: \<open>ceil(len(text) / 4)\<close> tokens.\<close>

definition approx_tokens :: "string \<Rightarrow> int" where
  "approx_tokens c = \<lceil>real (length c) / 4\<rceil>"

text \<open>
  The parallel-structure invariant of one user's persisted pair: when an index is
  loaded, it holds as many vectors as the identifier list has entries.
\<close>

definition parallel_invariant :: "db_state \<Rightarrow> string \<Rightarrow> bool" where
  "parallel_invariant s uid =
     (case load_faiss_index s uid of
        (None, memory_ids) \<Rightarrow> True
      | (Some index, memory_ids) \<Rightarrow> length index = length memory_ids)"

section \<open>Auxiliary definitions\<close>

text \<open>
  One pass of the candidate loop as a partial function of the hit: the candidate built
  from a hit whose slot is in range and whose memory is still stored, nothing otherwise.
\<close>

definition resolve_hit :: "real \<Rightarrow> db_state \<Rightarrow> string \<Rightarrow> string list \<Rightarrow> real \<times> int \<Rightarrow> candidate option" where
  "resolve_hit now s uid memory_ids hit =
     (case hit of (dst, idx) \<Rightarrow>
        if idx < 0 \<or> int (length memory_ids) \<le> idx then None
        else map_option (make_candidate now dst)
               (find (\<lambda>m. mem_id m = memory_ids ! nat idx \<and> user_id m = uid) (memories s)))"

text \<open>Successive calls of \<open>add_memory_to_index\<close> for one user, with the slots they return.\<close>

fun add_memories_to_index ::
  "(string list \<Rightarrow> vec list) \<Rightarrow> db_state \<Rightarrow> string \<Rightarrow> (string \<times> string) list \<Rightarrow> int list \<times> db_state" where
  "add_memories_to_index encode s uid [] = ([], s)"
| "add_memories_to_index encode s uid ((memory_id, tx) # rest) =
     (let (faiss_id, s1) = add_memory_to_index encode s uid memory_id tx;
          (faiss_ids, s2) = add_memories_to_index encode s1 uid rest
      in (faiss_id # faiss_ids, s2))"

text \<open>What the loop \<open>restamp\<close> does to a single row.\<close>

fun stamp_row :: "nat \<Rightarrow> memory list \<Rightarrow> memory \<Rightarrow> memory" where
  "stamp_row i [] row = row"
| "stamp_row i (mem # mems) row =
     stamp_row (Suc i) mems
       (if mem_id row = mem_id mem then row\<lparr>faiss_index_id := Some (int i)\<rparr> else row)"

text \<open>
  The budgeting step that \<open>build_prompt\<close> applies to each of its three sections: the
  text is truncated to the budget when its estimate exceeds the budget.
\<close>

definition fit_section :: "string \<Rightarrow> int \<Rightarrow> string" where
  "fit_section t budget =
     (if budget < estimate_tokens t then truncate_to_tokens t budget else t)"

section \<open>Example data\<close>

text \<open>
  A user with two stored memories and a consistent index; a search that returns both
  slots, the closer one first, with similarities that single precision represents.
\<close>

definition demo_vec :: vec where
  "demo_vec = [1]"

definition demo_memory :: "string \<Rightarrow> real \<Rightarrow> memory" where
  "demo_memory key imp =
     \<lparr>mem_id = key, user_id = ''u1'', memory_type = ''semantic'', content = ''note'',
      importance_score = imp, last_accessed = 0, reinforcement_count = 1, timestamp = 0,
      faiss_index_id = None, session_id = None\<rparr>"

definition demo_state :: db_state where
  "demo_state =
     \<lparr>memories = [demo_memory ''m1'' 0.3, demo_memory ''m2'' 0.35],
      index_files = [''u1'' \<mapsto> [demo_vec, demo_vec]],
      meta_files = [''u1'' \<mapsto> [''m1'', ''m2'']]\<rparr>"

definition demo_hits :: "(real \<times> int) list" where
  "demo_hits = [(1 / 2, 0), (973 / 2048, 1)]"

definition demo_search :: "vec list \<Rightarrow> vec \<Rightarrow> int \<Rightarrow> (real \<times> int) list" where
  "demo_search index query_vec k = demo_hits"

definition demo_encode :: "string list \<Rightarrow> vec list" where
  "demo_encode texts = map (\<lambda>t. demo_vec) texts"

text \<open>
  A user whose second memory was deleted after indexing and whose index holds one vector
  more than the identifier list; a search result padded with the slot \<open>-1\<close>.
\<close>

definition stale_state :: db_state where
  "stale_state =
     \<lparr>memories = [demo_memory ''m1'' 0.3],
      index_files = [''u1'' \<mapsto> [demo_vec, demo_vec, demo_vec]],
      meta_files = [''u1'' \<mapsto> [''m1'', ''m2'']]\<rparr>"

definition stale_hits :: "(real \<times> int) list" where
  "stale_hits = [(0.9, 2), (0.5, 0), (0.4, 1), (0, - 1)]"

definition empty_state :: db_state where
  "empty_state = \<lparr>memories = [], index_files = Map.empty, meta_files = Map.empty\<rparr>"

text \<open>
  A user with no index yet: two semantic memories, the older one stored first, and an
  episodic memory.
\<close>

definition rebuild_state :: db_state where
  "rebuild_state =
     \<lparr>memories =
        [(demo_memory ''a'' 0.3)\<lparr>timestamp := 0\<rparr>,
         (demo_memory ''b'' 0.3)\<lparr>timestamp := 100\<rparr>,
         (demo_memory ''c'' 0.3)\<lparr>memory_type := ''episodic'', timestamp := 200\<rparr>],
      index_files = Map.empty,
      meta_files = Map.empty\<rparr>"

text \<open>A profile, one ranked candidate and one session turn for the prompt assembler.\<close>

definition demo_profile :: user_profile where
  "demo_profile =
     \<lparr>display_name = ''Alex'', expertise_level = ''intermediate'',
      communication_style = ''conversational'', interests = [''guitar''], goals = []\<rparr>"

definition demo_candidates :: "candidate list" where
  "demo_candidates = [make_candidate 1800 0.5 (demo_memory ''m1'' 0.3)]"

definition demo_messages :: "message list" where
  "demo_messages = [\<lparr>role = ''user'', msg_content = ''hello''\<rparr>]"

section \<open>Rounding\<close>

lemma round_half_even_bounds:
  "\<lfloor>x\<rfloor> \<le> round_half_even x \<and> round_half_even x \<le> \<lfloor>x\<rfloor> + 1"
  by (simp add: round_half_even_def Let_def)

lemma round_half_even_mono:
  assumes "x \<le> y"
  shows "round_half_even x \<le> round_half_even y"
proof (cases "\<lfloor>x\<rfloor> = \<lfloor>y\<rfloor>")
  case True
  with assms show ?thesis
    by (auto simp add: round_half_even_def Let_def)
next
  case False
  with assms have "\<lfloor>x\<rfloor> + 1 \<le> \<lfloor>y\<rfloor>"
    using floor_mono [of x y] by linarith
  with round_half_even_bounds [of x] round_half_even_bounds [of y]
  show ?thesis by linarith
qed

lemma py_round4_mono: "x \<le> y \<Longrightarrow> py_round4 x \<le> py_round4 y"
  by (simp add: py_round4_def round_half_even_mono divide_right_mono)

lemma py_round4_lo: "py_round4 (3 / 10) = 3 / 10"
  by (simp add: py_round4_def round_half_even_def Let_def)

lemma py_round4_hi: "py_round4 (99 / 100) = 99 / 100"
  by (simp add: py_round4_def round_half_even_def Let_def)

section \<open>Recency\<close>

text \<open>
  Claim C3. The recency score is the step function of the age in hours: 1.0 below one
  hour, 0.85 from 1 to below 24, 0.65 from 24 to below 168, 0.45 from 168 to below 720,
  0.25 from 720 to below 8760, and 0.1 from 8760 on. It never increases with the age,
  an age of exactly 24 hours scores 0.65, and the ages 0.5, 2, 100, 500, 2000 and 20000
  hours score 1.0, 0.85, 0.65, 0.45, 0.25 and 0.1.
\<close>

theorem recency_step_function:
  "(let age = (now - ts) / 3600; r = compute_recency_score now ts
    in (age < 1 \<longrightarrow> r = 1.0)
     \<and> (1 \<le> age \<and> age < 24 \<longrightarrow> r = 0.85)
     \<and> (24 \<le> age \<and> age < 168 \<longrightarrow> r = 0.65)
     \<and> (168 \<le> age \<and> age < 720 \<longrightarrow> r = 0.45)
     \<and> (720 \<le> age \<and> age < 8760 \<longrightarrow> r = 0.25)
     \<and> (8760 \<le> age \<longrightarrow> r = 0.1))
   \<and> ((now - ts) / 3600 \<le> (now' - ts') / 3600 \<longrightarrow>
          compute_recency_score now' ts' \<le> compute_recency_score now ts)
   \<and> compute_recency_score now (now - 24 * 3600) = 0.65
   \<and> compute_recency_score now (now - 0.5 * 3600) = 1.0
   \<and> compute_recency_score now (now - 2 * 3600) = 0.85
   \<and> compute_recency_score now (now - 100 * 3600) = 0.65
   \<and> compute_recency_score now (now - 500 * 3600) = 0.45
   \<and> compute_recency_score now (now - 2000 * 3600) = 0.25
   \<and> compute_recency_score now (now - 20000 * 3600) = 0.1"
proof (intro conjI)
  show "let age = (now - ts) / 3600; r = compute_recency_score now ts
    in (age < 1 \<longrightarrow> r = 1.0)
     \<and> (1 \<le> age \<and> age < 24 \<longrightarrow> r = 0.85)
     \<and> (24 \<le> age \<and> age < 168 \<longrightarrow> r = 0.65)
     \<and> (168 \<le> age \<and> age < 720 \<longrightarrow> r = 0.45)
     \<and> (720 \<le> age \<and> age < 8760 \<longrightarrow> r = 0.25)
     \<and> (8760 \<le> age \<longrightarrow> r = 0.1)"
    by (simp add: compute_recency_score_def Let_def)
  show "(now - ts) / 3600 \<le> (now' - ts') / 3600 \<longrightarrow>
          compute_recency_score now' ts' \<le> compute_recency_score now ts"
    by (simp add: compute_recency_score_def Let_def)
qed (simp_all add: compute_recency_score_def Let_def)

text \<open>A memory of 25 hours against one of 250 hours, and the boundary of 24 hours.\<close>

theorem recency_step_function_witness:
  "compute_recency_score 90000 0 = 0.65
   \<and> (90000 - 0) / 3600 \<le> ((900000 - 0) / 3600 :: real)
   \<and> compute_recency_score 900000 0 \<le> compute_recency_score 90000 0
   \<and> compute_recency_score 900000 0 = 0.45
   \<and> compute_recency_score 90000 (90000 - 24 * 3600) = 0.65"
  using recency_step_function [of 90000 0 900000 0]
    recency_step_function [of 900000 0 900000 0]
  by (simp add: Let_def)

section \<open>Importance\<close>

lemma compute_importance_score_spec:
  "compute_importance_score c n = min (py_round4 (importance_spec c n)) 1"
  by (simp add: compute_importance_score_def importance_spec_def Let_def)

lemma importance_spec_bounds:
  assumes "1 \<le> n"
  shows "3 / 10 \<le> importance_spec c n" and "importance_spec c n \<le> 99 / 100"
proof -
  define e where "e = min (real (keyword_hits EMOTIONAL_KEYWORDS (str_lower c)) * 0.05) 0.25"
  define f where "f = min (real (keyword_hits FACTUAL_KEYWORDS (str_lower c)) * 0.08) 0.24"
  define l1 where "l1 = (if 100 < length c then 0.05 else (0::real))"
  define l2 where "l2 = (if 300 < length c then 0.05 else (0::real))"
  define r where "r = min (real_of_int (n - 1) * 0.02) 0.1"
  have e: "0 \<le> e" "e \<le> 25 / 100" by (simp_all add: e_def)
  have f: "0 \<le> f" "f \<le> 24 / 100" by (simp_all add: f_def)
  have l1: "0 \<le> l1" "l1 \<le> 5 / 100" by (simp_all add: l1_def)
  have l2: "0 \<le> l2" "l2 \<le> 5 / 100" by (simp_all add: l2_def)
  have r: "0 \<le> r" "r \<le> 10 / 100" using assms by (simp_all add: r_def)
  have eq: "importance_spec c n = 3 / 10 + e + f + l1 + l2 + r"
    by (simp add: importance_spec_def e_def f_def l1_def l2_def r_def)
  show "3 / 10 \<le> importance_spec c n"
    unfolding eq using e(1) f(1) l1(1) l2(1) r(1) by linarith
  show "importance_spec c n \<le> 99 / 100"
    unfolding eq using e(2) f(2) l1(2) l2(2) r(2) by linarith
qed

lemma importance_spec_mono:
  assumes "n \<le> n'"
  shows "importance_spec c n \<le> importance_spec c n'"
proof -
  have "real_of_int (n - 1) * 0.02 \<le> real_of_int (n' - 1) * 0.02"
    using assms by simp
  then have "min (real_of_int (n - 1) * 0.02) 0.1 \<le> min (real_of_int (n' - 1) * 0.02) (0.1::real)"
    by (rule min.mono) simp
  then show ?thesis
    by (simp only: importance_spec_def add_left_mono)
qed

lemma emotional_hits_example:
  "keyword_hits EMOTIONAL_KEYWORDS (str_lower ''I Love my job'') = 1"
  by code_simp

lemma factual_hits_example:
  "keyword_hits FACTUAL_KEYWORDS (str_lower ''I Love my job'') = 1"
  by code_simp

text \<open>
  Claim C4. For a reinforcement count \<open>n \<ge> 1\<close> the importance score is the
  specification's sum (baseline 0.3, capped emotional and factual weights, the two length
  bonuses, the capped reinforcement term), clamped to \<open>[0, 1]\<close> and rounded to four
  decimals; it lies in \<open>[0, 1]\<close> and, for a fixed text, does not decrease when the count
  grows.
\<close>

theorem importance_score_formula:
  "1 \<le> n \<longrightarrow>
     compute_importance_score c n = py_round4 (max 0 (min 1 (importance_spec c n)))
     \<and> 0 \<le> compute_importance_score c n
     \<and> compute_importance_score c n \<le> 1
     \<and> (\<forall>n'. n \<le> n' \<longrightarrow>
           compute_importance_score c n \<le> compute_importance_score c n')"
proof (intro impI conjI allI)
  assume n: "1 \<le> n"
  have lo: "3 / 10 \<le> py_round4 (importance_spec c n)"
    using py_round4_mono [OF importance_spec_bounds(1) [OF n, of c]] py_round4_lo by simp
  have hi: "py_round4 (importance_spec c n) \<le> 99 / 100"
    using py_round4_mono [OF importance_spec_bounds(2) [OF n, of c]] py_round4_hi by simp
  have clamp: "max 0 (min 1 (importance_spec c n)) = importance_spec c n"
    using importance_spec_bounds [OF n, of c] by simp
  show "compute_importance_score c n = py_round4 (max 0 (min 1 (importance_spec c n)))"
    using hi by (simp add: compute_importance_score_spec clamp)
  show "0 \<le> compute_importance_score c n"
    using lo by (simp add: compute_importance_score_spec)
  show "compute_importance_score c n \<le> 1"
    by (simp add: compute_importance_score_spec)
  fix n' assume "n \<le> n'"
  then have "py_round4 (importance_spec c n) \<le> py_round4 (importance_spec c n')"
    by (intro py_round4_mono importance_spec_mono)
  then show "compute_importance_score c n \<le> compute_importance_score c n'"
    by (simp add: compute_importance_score_spec min_def)
qed

text \<open>One emotional keyword, one factual pattern, third reinforcement: 0.47.\<close>

theorem importance_score_formula_witness:
  "(1::int) \<le> 3
   \<and> compute_importance_score ''I Love my job'' 3 = 0.47
   \<and> 0 \<le> compute_importance_score ''I Love my job'' 3
   \<and> compute_importance_score ''I Love my job'' 3 \<le> 1
   \<and> compute_importance_score ''I Love my job'' 3 \<le> compute_importance_score ''I Love my job'' 5"
  using importance_score_formula [of 3 "''I Love my job''"]
  by (simp add: importance_spec_def emotional_hits_example factual_hits_example
        py_round4_def round_half_even_def Let_def)

section \<open>Ranking\<close>

lemma py_getitem_in_range:
  "0 \<le> i \<Longrightarrow> i < int (length xs) \<Longrightarrow> py_getitem xs i = Inr (xs ! nat i)"
  by (simp add: py_getitem_def)

lemma collect_candidates_resolve:
  "collect_candidates now s uid ids hits = Inr (List.map_filter (resolve_hit now s uid ids) hits)"
proof (induction hits)
  case Nil
  show ?case by (simp add: List.map_filter_simps)
next
  case (Cons h hits)
  obtain d i where h: "h = (d, i)" by (cases h)
  show ?case
  proof (cases "i < 0 \<or> int (length ids) \<le> i")
    case True
    then show ?thesis
      using Cons.IH by (simp add: h resolve_hit_def List.map_filter_simps)
  next
    case False
    then have rng: "0 \<le> i" "i < int (length ids)" by simp_all
    show ?thesis
      using Cons.IH False py_getitem_in_range [OF rng]
      by (simp add: h resolve_hit_def List.map_filter_simps split: option.splits)
  qed
qed

lemma resolve_hit_stored:
  assumes "resolve_hit now s uid ids h = Some c"
  shows "\<exists>d i m. h = (d, i) \<and> 0 \<le> i \<and> i < int (length ids) \<and> m \<in> set (memories s)
           \<and> mem_id m = ids ! nat i \<and> user_id m = uid \<and> mem_id m = cand_id c
           \<and> c = make_candidate now d m"
proof -
  obtain d i where h: "h = (d, i)" by (cases h)
  from assms have rng: "0 \<le> i" "i < int (length ids)"
    by (auto simp add: h resolve_hit_def split: if_splits)
  from assms obtain m where
    f: "find (\<lambda>m. mem_id m = ids ! nat i \<and> user_id m = uid) (memories s) = Some m"
    and c: "c = make_candidate now d m"
    by (auto simp add: h resolve_hit_def split: if_splits)
  from f have "m \<in> set (memories s)" "mem_id m = ids ! nat i" "user_id m = uid"
    by (auto simp add: find_Some_iff)
  moreover have "mem_id m = cand_id c"
    by (simp add: c make_candidate_def)
  ultimately show ?thesis using h rng c by blast
qed

text \<open>
  The doubles of two literals, and a score whose exact sum 0.34725 lies halfway between
  two four-decimal values: the sum in doubles lies above it and is rounded up, as CPython
  does, where the exact sum would go to the even neighbour.
\<close>

lemma fl_examples:
  "fl 0.1 = 3602879701896397 / 36028797018963968"
  "fl 1 = 1"
  "float_round4 (weighted_sum (fl (1 / 64)) (fl 1) (fl 0.43) (min (fdiv (fl 1) (fl 20)) (fl 1))
     (fl 0.5)) = fl 0.3473"
  "py_round4 (0.4 * (1 / 64) + 0.2 * 1 + 0.2 * 0.43 + 0.1 * (1 / 20) + 0.1 * 0.5) = 0.3472"
  by code_simp+

text \<open>The code's score for one hit is the specification's weighted sum of its factors.\<close>

lemma composite_weighted_sum:
  "composite now d m =
     weighted_sum (fl d) (fl (compute_recency_score now (timestamp m)))
       (fl (importance_score m))
       (min (fdiv (fl (real_of_int (reinforcement_count m))) (fl 20)) (fl 1))
       (if memory_type m = ''profile'' \<or> memory_type m = ''episodic'' then fl 0.8 else fl 0.5)"
  by (simp add: composite_def weighted_sum_def settings_def Let_def)

lemma set_map_filter: "set (List.map_filter f xs) = {y. \<exists>x\<in>set xs. f x = Some y}"
  by (induction xs) (auto simp add: List.map_filter_simps split: option.splits)

lemma sorted_desc_sort_key:
  "sorted_wrt (\<lambda>a b. composite_score b \<le> composite_score a)
     (sort_key (\<lambda>x. - composite_score x) cands)"
proof -
  have "sorted (map (\<lambda>x. - composite_score x) (sort_key (\<lambda>x. - composite_score x) cands))"
    by (rule sorted_sort_key)
  then show ?thesis
    by (simp add: sorted_map)
qed

lemma stable_desc_sort_key:
  "filter (\<lambda>c. composite_score c = v) (sort_key (\<lambda>x. - composite_score x) cands)
     = filter (\<lambda>c. composite_score c = v) cands"
  using sort_key_stable [of "\<lambda>x. - composite_score x" "- v" cands] by simp

lemma retrieve_result:
  assumes "1 \<le> k"
  shows "fst (retrieve_relevant_memories search encode now s uid q (Some k)) =
     (case load_faiss_index s uid of
        (None, ids) \<Rightarrow> Inr []
      | (Some index, ids) \<Rightarrow>
          if index = [] then Inr []
          else Inr (py_slice_to
                 (sort_key (\<lambda>x. - composite_score x)
                    (List.map_filter (resolve_hit now s uid ids)
                       (search index (embed_text encode q) (min (k * 3) (int (length index))))))
                 k))"
proof -
  have "\<not> min (k * 3) (int (length index)) \<le> 0" if "index \<noteq> []" for index :: "vec list"
    using assms that by (cases index) auto
  then show ?thesis
    by (simp add: retrieve_relevant_memories_def collect_candidates_resolve Let_def
          split: prod.splits option.splits)
qed

text \<open>A requested count that is not positive reaches the assertion of the search.\<close>

lemma retrieve_nonpositive_top_k:
  "fst (retrieve_relevant_memories demo_search demo_encode 1800 demo_state ''u1'' ''hobby'' (Some 0))
     = Inl AssertionError"
  by (simp add: retrieve_relevant_memories_def load_faiss_index_def demo_state_def)

text \<open>
  Claim C1, as amended. For a requested count \<open>k \<ge> 1\<close> the ranking returns a list of at
  most \<open>k\<close> candidates. Each one carries the identifier of a memory that is stored for
  that user and that a hit of the similarity search resolves to, and its composite score
  is the weighted sum \<open>0.4 * similarity + 0.2 * recency + 0.2 * importance
  + 0.1 * min (count / 20) 1 + 0.1 * personal\<close> of that hit and that memory (personal
  \<open>0.8\<close> for profile and episodic memories, \<open>0.5\<close> otherwise), evaluated in doubles and
  rounded to four decimals. The list is in non-increasing order of this rounded score,
  and the candidates of any one rounded score appear in the order of the similarity
  search.
\<close>

theorem retrieve_ranked:
  assumes "1 \<le> k"
  shows "\<exists>cs. fst (retrieve_relevant_memories search encode now s uid q (Some k)) = Inr cs
     \<and> int (length cs) \<le> k
     \<and> (\<forall>c\<in>set cs. \<exists>m\<in>set (memories s). mem_id m = cand_id c \<and> user_id m = uid
           \<and> (\<exists>index ids d i. load_faiss_index s uid = (Some index, ids)
                 \<and> (d, i) \<in> set (search index (embed_text encode q)
                                    (min (k * 3) (int (length index))))
                 \<and> 0 \<le> i \<and> i < int (length ids) \<and> ids ! nat i = mem_id m
                 \<and> composite_score c = float_round4
                   (weighted_sum (fl d) (fl (compute_recency_score now (timestamp m)))
                    (fl (importance_score m))
                    (min (fdiv (fl (real_of_int (reinforcement_count m))) (fl 20)) (fl 1))
                    (if memory_type m = ''profile'' \<or> memory_type m = ''episodic''
                     then fl 0.8 else fl 0.5))))
     \<and> sorted_wrt (\<lambda>a b. composite_score b \<le> composite_score a) cs
     \<and> (\<forall>index ids v. load_faiss_index s uid = (Some index, ids) \<and> index \<noteq> [] \<longrightarrow>
           prefix (filter (\<lambda>c. composite_score c = v) cs)
             (filter (\<lambda>c. composite_score c = v)
                (List.map_filter (resolve_hit now s uid ids)
                   (search index (embed_text encode q) (min (k * 3) (int (length index)))))))"
proof (cases "load_faiss_index s uid")
  case (Pair index_opt ids)
  show ?thesis
  proof (cases "index_opt = None \<or> index_opt = Some []")
    case True
    then have "fst (retrieve_relevant_memories search encode now s uid q (Some k)) = Inr []"
      using Pair by (auto simp add: retrieve_result [OF assms])
    then show ?thesis using assms True Pair by auto
  next
    case False
    then obtain index where ix: "index_opt = Some index" "index \<noteq> []" by auto
    define hits where "hits = search index (embed_text encode q) (min (k * 3) (int (length index)))"
    define cands where "cands = List.map_filter (resolve_hit now s uid ids) hits"
    define cs where "cs = take (nat k) (sort_key (\<lambda>x. - composite_score x) cands)"
    have res: "fst (retrieve_relevant_memories search encode now s uid q (Some k)) = Inr cs"
      using Pair ix assms
      by (simp add: retrieve_result [OF assms] cs_def cands_def hits_def py_slice_to_def)
    have len: "int (length cs) \<le> k"
      using assms by (simp add: cs_def)
    have sub: "set cs \<subseteq> set cands"
      using set_take_subset [of "nat k" "sort_key (\<lambda>x. - composite_score x) cands"]
      by (simp add: cs_def)
    have stored: "\<exists>m\<in>set (memories s). mem_id m = cand_id c \<and> user_id m = uid
           \<and> (\<exists>index ids d i. load_faiss_index s uid = (Some index, ids)
                 \<and> (d, i) \<in> set (search index (embed_text encode q)
                                    (min (k * 3) (int (length index))))
                 \<and> 0 \<le> i \<and> i < int (length ids) \<and> ids ! nat i = mem_id m
                 \<and> composite_score c = float_round4
                   (weighted_sum (fl d) (fl (compute_recency_score now (timestamp m)))
                    (fl (importance_score m))
                    (min (fdiv (fl (real_of_int (reinforcement_count m))) (fl 20)) (fl 1))
                    (if memory_type m = ''profile'' \<or> memory_type m = ''episodic''
                     then fl 0.8 else fl 0.5)))" if "c \<in> set cs" for c
    proof -
      from that sub have "c \<in> set cands" by blast
      then obtain h where hh: "h \<in> set hits" and "resolve_hit now s uid ids h = Some c"
        by (auto simp add: cands_def set_map_filter)
      from resolve_hit_stored [OF this(2)] obtain d i m where
        m: "h = (d, i)" "0 \<le> i" "i < int (length ids)" "m \<in> set (memories s)"
           "mem_id m = ids ! nat i" "user_id m = uid" "mem_id m = cand_id c"
           "c = make_candidate now d m" by blast
      have sc: "composite_score c = float_round4
                   (weighted_sum (fl d) (fl (compute_recency_score now (timestamp m)))
                    (fl (importance_score m))
                    (min (fdiv (fl (real_of_int (reinforcement_count m))) (fl 20)) (fl 1))
                    (if memory_type m = ''profile'' \<or> memory_type m = ''episodic''
                     then fl 0.8 else fl 0.5))"
        by (simp add: m(8) make_candidate_def composite_weighted_sum)
      have hit: "(d, i) \<in> set (search index (embed_text encode q)
                                    (min (k * 3) (int (length index))))"
        using hh by (simp add: m(1) hits_def)
      have ld: "load_faiss_index s uid = (Some index, ids)"
        using Pair ix by simp
      from ld hit m(2,3) m(5) [symmetric] sc
      have "\<exists>index ids d i. load_faiss_index s uid = (Some index, ids)
                 \<and> (d, i) \<in> set (search index (embed_text encode q)
                                    (min (k * 3) (int (length index))))
                 \<and> 0 \<le> i \<and> i < int (length ids) \<and> ids ! nat i = mem_id m
                 \<and> composite_score c = float_round4
                   (weighted_sum (fl d) (fl (compute_recency_score now (timestamp m)))
                    (fl (importance_score m))
                    (min (fdiv (fl (real_of_int (reinforcement_count m))) (fl 20)) (fl 1))
                    (if memory_type m = ''profile'' \<or> memory_type m = ''episodic''
                     then fl 0.8 else fl 0.5))"
        by blast
      with m(4,6,7) show ?thesis by blast
    qed
    have srt: "sorted_wrt (\<lambda>a b. composite_score b \<le> composite_score a) cs"
      unfolding cs_def by (rule sorted_wrt_take) (rule sorted_desc_sort_key)
    have stab: "prefix (filter (\<lambda>c. composite_score c = v) cs)
             (filter (\<lambda>c. composite_score c = v) cands)" for v
    proof -
      have "prefix cs (sort_key (\<lambda>x. - composite_score x) cands)"
        unfolding cs_def by (rule take_is_prefix)
      from filter_mono_prefix [OF this, of "\<lambda>c. composite_score c = v"]
      show ?thesis by (simp add: stable_desc_sort_key)
    qed
    show ?thesis
    proof (intro exI [of _ cs] conjI ballI allI impI)
      show "fst (retrieve_relevant_memories search encode now s uid q (Some k)) = Inr cs"
        by (rule res)
      show "int (length cs) \<le> k" by (rule len)
      show "sorted_wrt (\<lambda>a b. composite_score b \<le> composite_score a) cs" by (rule srt)
    next
      fix c assume "c \<in> set cs"
      then show "\<exists>m\<in>set (memories s). mem_id m = cand_id c \<and> user_id m = uid
           \<and> (\<exists>index ids d i. load_faiss_index s uid = (Some index, ids)
                 \<and> (d, i) \<in> set (search index (embed_text encode q)
                                    (min (k * 3) (int (length index))))
                 \<and> 0 \<le> i \<and> i < int (length ids) \<and> ids ! nat i = mem_id m
                 \<and> composite_score c = float_round4
                   (weighted_sum (fl d) (fl (compute_recency_score now (timestamp m)))
                    (fl (importance_score m))
                    (min (fdiv (fl (real_of_int (reinforcement_count m))) (fl 20)) (fl 1))
                    (if memory_type m = ''profile'' \<or> memory_type m = ''episodic''
                     then fl 0.8 else fl 0.5)))"
        by (rule stored)
    next
      fix index' ids' v
      assume "load_faiss_index s uid = (Some index', ids') \<and> index' \<noteq> []"
      then have "index' = index" "ids' = ids" using Pair ix by simp_all
      then show "prefix (filter (\<lambda>c. composite_score c = v) cs)
             (filter (\<lambda>c. composite_score c = v)
                (List.map_filter (resolve_hit now s uid ids')
                   (search index' (embed_text encode q) (min (k * 3) (int (length index'))))))"
        using stab [of v] by (simp add: cands_def hits_def)
    qed
  qed
qed

lemma demo_load: "load_faiss_index demo_state ''u1'' = (Some [demo_vec, demo_vec], [''m1'', ''m2''])"
  by (simp add: load_faiss_index_def demo_state_def)

lemma demo_resolved:
  "List.map_filter (resolve_hit 1800 demo_state ''u1'' [''m1'', ''m2'']) demo_hits
     = [make_candidate 1800 (1 / 2) (demo_memory ''m1'' 0.3),
        make_candidate 1800 (973 / 2048) (demo_memory ''m2'' 0.35)]"
  by (simp add: demo_hits_def List.map_filter_simps resolve_hit_def demo_state_def demo_memory_def)

text \<open>
  Both scores are the double next to 0.515: the sums in doubles are 0.515 and
  0.5150390625000001.
\<close>

lemma demo_scores:
  "composite_score (make_candidate 1800 (1 / 2) (demo_memory ''m1'' 0.3)) = 4638707616191611 / 9007199254740992"
  "composite_score (make_candidate 1800 (973 / 2048) (demo_memory ''m2'' 0.35)) = 4638707616191611 / 9007199254740992"
  "composite 1800 (1 / 2) (demo_memory ''m1'' 0.3) = 4638707616191611 / 9007199254740992"
  "composite 1800 (973 / 2048) (demo_memory ''m2'' 0.35) = 1159764864978125 / 2251799813685248"
  by code_simp+

lemma demo_sorted:
  "sort_key (\<lambda>x. - composite_score x)
     [make_candidate 1800 (1 / 2) (demo_memory ''m1'' 0.3),
      make_candidate 1800 (973 / 2048) (demo_memory ''m2'' 0.35)]
   = [make_candidate 1800 (1 / 2) (demo_memory ''m1'' 0.3),
      make_candidate 1800 (973 / 2048) (demo_memory ''m2'' 0.35)]"
proof -
  have "composite_score (make_candidate 1800 (973 / 2048) (demo_memory ''m2'' 0.35))
          \<le> composite_score (make_candidate 1800 (1 / 2) (demo_memory ''m1'' 0.3))"
    unfolding demo_scores by simp
  then show ?thesis by simp
qed

lemma demo_retrieved:
  "fst (retrieve_relevant_memories demo_search demo_encode 1800 demo_state ''u1'' ''hobby'' (Some 5))
     = Inr [make_candidate 1800 (1 / 2) (demo_memory ''m1'' 0.3),
            make_candidate 1800 (973 / 2048) (demo_memory ''m2'' 0.35)]"
proof -
  have "fst (retrieve_relevant_memories demo_search demo_encode 1800 demo_state ''u1'' ''hobby'' (Some 5))
     = Inr (py_slice_to (sort_key (\<lambda>x. - composite_score x)
              (List.map_filter (resolve_hit 1800 demo_state ''u1'' [''m1'', ''m2'']) demo_hits)) 5)"
    by (simp add: retrieve_result demo_load demo_search_def)
  also have "\<dots> = Inr [make_candidate 1800 (1 / 2) (demo_memory ''m1'' 0.3),
            make_candidate 1800 (973 / 2048) (demo_memory ''m2'' 0.35)]"
    unfolding demo_resolved demo_sorted by (simp add: py_slice_to_def)
  finally show ?thesis .
qed

text \<open>
  The order is by the rounded score, not by the weighted sum itself: the first hit has
  the sum 0.515, the second 0.5150390625, both round to 0.515, and the search order is
  kept.
\<close>

theorem retrieve_exact_order_counterexample:
  "fst (retrieve_relevant_memories demo_search demo_encode 1800 demo_state ''u1'' ''hobby'' (Some 5))
     = Inr [make_candidate 1800 (1 / 2) (demo_memory ''m1'' 0.3),
            make_candidate 1800 (973 / 2048) (demo_memory ''m2'' 0.35)]
   \<and> composite 1800 (1 / 2) (demo_memory ''m1'' 0.3)
       < composite 1800 (973 / 2048) (demo_memory ''m2'' 0.35)"
proof
  show "fst (retrieve_relevant_memories demo_search demo_encode 1800 demo_state ''u1'' ''hobby'' (Some 5))
     = Inr [make_candidate 1800 (1 / 2) (demo_memory ''m1'' 0.3),
            make_candidate 1800 (973 / 2048) (demo_memory ''m2'' 0.35)]"
    by (rule demo_retrieved)
  show "composite 1800 (1 / 2) (demo_memory ''m1'' 0.3)
       < composite 1800 (973 / 2048) (demo_memory ''m2'' 0.35)"
    unfolding demo_scores by simp
qed

theorem retrieve_ranked_witness:
  "(1::int) \<le> 5
   \<and> load_faiss_index demo_state ''u1'' = (Some [demo_vec, demo_vec], [''m1'', ''m2''])
   \<and> (\<exists>cs. fst (retrieve_relevant_memories demo_search demo_encode 1800 demo_state ''u1''
                  ''hobby'' (Some 5)) = Inr cs
         \<and> int (length cs) \<le> 5
         \<and> sorted_wrt (\<lambda>a b. composite_score b \<le> composite_score a) cs
         \<and> prefix (filter (\<lambda>c. composite_score c = fl 0.515) cs)
              (filter (\<lambda>c. composite_score c = fl 0.515)
                 (List.map_filter (resolve_hit 1800 demo_state ''u1'' [''m1'', ''m2'']) demo_hits)))"
proof -
  have k: "(1::int) \<le> 5" by simp
  from retrieve_ranked [OF k, of demo_search demo_encode 1800 demo_state "''u1''" "''hobby''"]
  obtain cs where
    cs: "fst (retrieve_relevant_memories demo_search demo_encode 1800 demo_state ''u1''
                  ''hobby'' (Some 5)) = Inr cs"
      "int (length cs) \<le> 5"
      "sorted_wrt (\<lambda>a b. composite_score b \<le> composite_score a) cs"
    and st: "\<And>index ids v. load_faiss_index demo_state ''u1'' = (Some index, ids) \<and> index \<noteq> [] \<longrightarrow>
           prefix (filter (\<lambda>c. composite_score c = v) cs)
             (filter (\<lambda>c. composite_score c = v)
                (List.map_filter (resolve_hit 1800 demo_state ''u1'' ids)
                   (demo_search index (embed_text demo_encode ''hobby'')
                      (min (5 * 3) (int (length index))))))"
    by blast
  have "prefix (filter (\<lambda>c. composite_score c = fl 0.515) cs)
              (filter (\<lambda>c. composite_score c = fl 0.515)
                 (List.map_filter (resolve_hit 1800 demo_state ''u1'' [''m1'', ''m2'']) demo_hits))"
    using st [of "[demo_vec, demo_vec]" "[''m1'', ''m2'']" "fl 0.515"] demo_load
    by (simp add: demo_search_def)
  with k cs demo_load show ?thesis by blast
qed

text \<open>
  Claim C5. When the user's index file or identifier file is absent, or the index holds
  no vector, the ranking returns the empty list and no error.
\<close>

theorem retrieve_empty_index:
  "index_files s uid = None \<or> meta_files s uid = None \<or> index_files s uid = Some []
   \<longrightarrow> fst (retrieve_relevant_memories search encode now s uid q top_k) = Inr []"
  by (auto simp add: retrieve_relevant_memories_def load_faiss_index_def Let_def
        split: option.splits)

theorem retrieve_empty_index_witness:
  "index_files empty_state ''u1'' = None
   \<and> fst (retrieve_relevant_memories demo_search demo_encode 1800 empty_state ''u1'' ''hobby'' None)
       = Inr []
   \<and> index_files (empty_state\<lparr>index_files := [''u1'' \<mapsto> []], meta_files := [''u1'' \<mapsto> []]\<rparr>) ''u1''
       = Some []
   \<and> fst (retrieve_relevant_memories demo_search demo_encode 1800
            (empty_state\<lparr>index_files := [''u1'' \<mapsto> []], meta_files := [''u1'' \<mapsto> []]\<rparr>)
            ''u1'' ''hobby'' None) = Inr []"
  using retrieve_empty_index [of empty_state "''u1''" demo_search demo_encode 1800 "''hobby''" None]
    retrieve_empty_index [of "empty_state\<lparr>index_files := [''u1'' \<mapsto> []], meta_files := [''u1'' \<mapsto> []]\<rparr>"
      "''u1''" demo_search demo_encode 1800 "''hobby''" None]
  by (simp add: empty_state_def)

text \<open>
  Claim C6. Ranking is read-only: the state after the call is the state before it, so
  every memory row (reinforcement count, timestamp, last access, importance) and both
  persisted files are unchanged.
\<close>

theorem retrieve_read_only:
  "snd (retrieve_relevant_memories search encode now s uid q top_k) = s
   \<and> memories (snd (retrieve_relevant_memories search encode now s uid q top_k)) = memories s
   \<and> index_files (snd (retrieve_relevant_memories search encode now s uid q top_k)) = index_files s
   \<and> meta_files (snd (retrieve_relevant_memories search encode now s uid q top_k)) = meta_files s"
proof -
  have "snd (retrieve_relevant_memories search encode now s uid q top_k) = s"
    by (simp add: retrieve_relevant_memories_def Let_def
          split: prod.splits option.splits sum.splits)
  then show ?thesis by simp
qed

text \<open>
  Claim C10. The candidate loop never raises: a hit whose slot is negative or not below
  the length of the identifier list is skipped, so the loop computes what it computes on
  the hits in range; the ranking never ends in an index error, and for a requested count
  of at least one it returns a list.
\<close>

theorem out_of_range_hits_skipped:
  "(\<exists>cands. collect_candidates now s uid ids hits = Inr cands)
   \<and> fst (retrieve_relevant_memories search encode now s uid q top_k) \<noteq> Inl IndexError
   \<and> (1 \<le> k \<longrightarrow>
        (\<exists>cs. fst (retrieve_relevant_memories search encode now s uid q (Some k)) = Inr cs))
   \<and> (idx < 0 \<or> int (length ids) \<le> idx \<longrightarrow>
        collect_candidates now s uid ids ((d, idx) # hits) = collect_candidates now s uid ids hits)
   \<and> collect_candidates now s uid ids hits =
       collect_candidates now s uid ids
         (filter (\<lambda>h. 0 \<le> snd h \<and> snd h < int (length ids)) hits)"
proof (intro conjI impI)
  show "\<exists>cands. collect_candidates now s uid ids hits = Inr cands"
    by (simp add: collect_candidates_resolve)
  show "fst (retrieve_relevant_memories search encode now s uid q top_k) \<noteq> Inl IndexError"
    by (simp add: retrieve_relevant_memories_def collect_candidates_resolve Let_def
          split: prod.splits option.splits)
  show "\<exists>cs. fst (retrieve_relevant_memories search encode now s uid q (Some k)) = Inr cs"
    if "1 \<le> k"
    by (simp add: retrieve_result [OF that] split: prod.splits option.splits)
  show "collect_candidates now s uid ids ((d, idx) # hits) = collect_candidates now s uid ids hits"
    if "idx < 0 \<or> int (length ids) \<le> idx"
    using that by auto
  show "collect_candidates now s uid ids hits =
       collect_candidates now s uid ids
         (filter (\<lambda>h. 0 \<le> snd h \<and> snd h < int (length ids)) hits)"
  proof -
    have "List.map_filter (resolve_hit now s uid ids)
            (filter (\<lambda>h. 0 \<le> snd h \<and> snd h < int (length ids)) hits)
          = List.map_filter (resolve_hit now s uid ids) hits"
      by (induction hits)
        (auto simp add: List.map_filter_simps resolve_hit_def split: option.splits if_splits)
    then show ?thesis
      by (simp add: collect_candidates_resolve)
  qed
qed

theorem out_of_range_hits_skipped_witness:
  "((2::int) < 0 \<or> int (length [''m1'', ''m2'']) \<le> 2)
   \<and> (1::int) \<le> 5
   \<and> collect_candidates 1800 stale_state ''u1'' [''m1'', ''m2''] stale_hits
       = Inr [make_candidate 1800 0.5 (demo_memory ''m1'' 0.3)]
   \<and> collect_candidates 1800 stale_state ''u1'' [''m1'', ''m2''] ((0.9, 2) # tl stale_hits)
       = collect_candidates 1800 stale_state ''u1'' [''m1'', ''m2''] (tl stale_hits)
   \<and> filter (\<lambda>h. 0 \<le> snd h \<and> snd h < int (length [''m1'', ''m2''])) stale_hits
       = [(0.5, 0), (0.4, 1)]
   \<and> (\<exists>cs. fst (retrieve_relevant_memories (\<lambda>index query_vec k. stale_hits) demo_encode 1800
                  stale_state ''u1'' ''hobby'' (Some 5)) = Inr cs)"
proof -
  have a: "(2::int) < 0 \<or> int (length [''m1'', ''m2'']) \<le> 2" by simp
  have k: "(1::int) \<le> 5" by simp
  have f: "filter (\<lambda>h. 0 \<le> snd h \<and> snd h < int (length [''m1'', ''m2''])) stale_hits
       = [(0.5, 0), (0.4, 1)]"
    by (simp add: stale_hits_def)
  have c: "collect_candidates 1800 stale_state ''u1'' [''m1'', ''m2''] [(0.5, 0), (0.4, 1)]
       = Inr [make_candidate 1800 0.5 (demo_memory ''m1'' 0.3)]"
    by (simp add: stale_state_def demo_memory_def py_getitem_def)
  note t1 = out_of_range_hits_skipped [where now = 1800 and s = stale_state and uid = "''u1''"
      and ids = "[''m1'', ''m2'']" and hits = stale_hits
      and search = "\<lambda>index query_vec k. stale_hits" and encode = demo_encode
      and q = "''hobby''" and top_k = None and k = 5 and idx = 2 and d = "0.9"]
  note t2 = out_of_range_hits_skipped [where now = 1800 and s = stale_state and uid = "''u1''"
      and ids = "[''m1'', ''m2'']" and hits = "tl stale_hits"
      and search = "\<lambda>index query_vec k. stale_hits" and encode = demo_encode
      and q = "''hobby''" and top_k = None and k = 5 and idx = 2 and d = "0.9"]
  from t1
  have "collect_candidates 1800 stale_state ''u1'' [''m1'', ''m2''] stale_hits =
       collect_candidates 1800 stale_state ''u1'' [''m1'', ''m2'']
         (filter (\<lambda>h. 0 \<le> snd h \<and> snd h < int (length [''m1'', ''m2''])) stale_hits)"
    by blast
  then have r: "collect_candidates 1800 stale_state ''u1'' [''m1'', ''m2''] stale_hits
       = Inr [make_candidate 1800 0.5 (demo_memory ''m1'' 0.3)]"
    unfolding f c .
  from t2 a
  have t: "collect_candidates 1800 stale_state ''u1'' [''m1'', ''m2''] ((0.9, 2) # tl stale_hits)
       = collect_candidates 1800 stale_state ''u1'' [''m1'', ''m2''] (tl stale_hits)"
    by blast
  from t1 k
  have e: "\<exists>cs. fst (retrieve_relevant_memories (\<lambda>index query_vec k. stale_hits) demo_encode 1800
                  stale_state ''u1'' ''hobby'' (Some 5)) = Inr cs"
    by blast
  from a k r t f e show ?thesis by blast
qed

section \<open>Index append\<close>

lemma add_memory_to_index_load:
  "load_faiss_index (snd (add_memory_to_index encode s uid mid tx)) uid =
     (Some ((case fst (load_faiss_index s uid) of None \<Rightarrow> [] | Some ix \<Rightarrow> ix)
              @ [embed_text encode tx]),
      snd (load_faiss_index s uid) @ [mid])"
  by (simp add: add_memory_to_index_def load_faiss_index_def save_faiss_index_def Let_def
        split: option.splits)

lemma add_memory_to_index_fst:
  "fst (add_memory_to_index encode s uid mid tx) = int (length (snd (load_faiss_index s uid)))"
  by (simp add: add_memory_to_index_def load_faiss_index_def save_faiss_index_def Let_def
        split: option.splits)

lemma add_memory_to_index_frame:
  "memories (snd (add_memory_to_index encode s uid mid tx)) = memories s"
  "u \<noteq> uid \<Longrightarrow> load_faiss_index (snd (add_memory_to_index encode s uid mid tx)) u
     = load_faiss_index s u"
  by (simp_all add: add_memory_to_index_def load_faiss_index_def save_faiss_index_def Let_def
        split: option.splits prod.splits)

lemma add_memory_to_index_invariant:
  "parallel_invariant s uid \<Longrightarrow>
   parallel_invariant (snd (add_memory_to_index encode s uid mid tx)) uid"
  unfolding parallel_invariant_def add_memory_to_index_load
  by (auto simp add: load_faiss_index_def split: option.splits)

lemma add_memories_to_index_Cons:
  "fst (add_memories_to_index encode s uid ((mid, tx) # rest)) =
     fst (add_memory_to_index encode s uid mid tx)
       # fst (add_memories_to_index encode (snd (add_memory_to_index encode s uid mid tx)) uid rest)"
  "snd (add_memories_to_index encode s uid ((mid, tx) # rest)) =
     snd (add_memories_to_index encode (snd (add_memory_to_index encode s uid mid tx)) uid rest)"
  by (simp_all add: case_prod_beta)

lemma add_memories_to_index_dense:
  "fst (add_memories_to_index encode s uid items) =
     map int [length (snd (load_faiss_index s uid)) ..<
              length (snd (load_faiss_index s uid)) + length items]
   \<and> snd (load_faiss_index (snd (add_memories_to_index encode s uid items)) uid) =
       snd (load_faiss_index s uid) @ map fst items"
proof (induction items arbitrary: s)
  case Nil
  show ?case by simp
next
  case (Cons it items)
  obtain mid tx where it: "it = (mid, tx)" by (cases it)
  define n where "n = length (snd (load_faiss_index s uid))"
  let ?s1 = "snd (add_memory_to_index encode s uid mid tx)"
  have l1: "snd (load_faiss_index ?s1 uid) = snd (load_faiss_index s uid) @ [mid]"
    by (simp add: add_memory_to_index_load)
  then have n1: "length (snd (load_faiss_index ?s1 uid)) = Suc n"
    by (simp add: n_def)
  have up: "[n ..< n + length (it # items)] = n # [Suc n ..< Suc n + length items]"
  proof -
    have "n < Suc n + length items" by simp
    from upt_conv_Cons [OF this]
    have "[n ..< Suc n + length items] = n # [Suc n ..< Suc n + length items]" .
    moreover have "n + length (it # items) = Suc n + length items" by simp
    ultimately show ?thesis by (simp only:)
  qed
  from Cons.IH [of ?s1]
  have "fst (add_memories_to_index encode ?s1 uid items) =
          map int [length (snd (load_faiss_index ?s1 uid)) ..<
                   length (snd (load_faiss_index ?s1 uid)) + length items]"
    by blast
  then have ih1: "fst (add_memories_to_index encode ?s1 uid items) =
              map int [Suc n ..< Suc n + length items]"
    by (simp only: n1)
  from Cons.IH [of ?s1]
  have "snd (load_faiss_index (snd (add_memories_to_index encode ?s1 uid items)) uid) =
       snd (load_faiss_index ?s1 uid) @ map fst items"
    by blast
  then have ih2: "snd (load_faiss_index (snd (add_memories_to_index encode ?s1 uid items)) uid) =
       snd (load_faiss_index s uid) @ map fst (it # items)"
    by (simp add: l1 it)
  have f: "fst (add_memory_to_index encode s uid mid tx) = int n"
    by (simp only: add_memory_to_index_fst n_def)
  have "fst (add_memories_to_index encode s uid (it # items)) =
          map int [n ..< n + length (it # items)]"
    by (simp only: it add_memories_to_index_Cons f ih1 up [unfolded it] list.map)
  moreover have "snd (load_faiss_index (snd (add_memories_to_index encode s uid (it # items))) uid)
      = snd (load_faiss_index s uid) @ map fst (it # items)"
    using ih2 by (simp only: it add_memories_to_index_Cons)
  ultimately show ?case
    by (simp only: n_def simp_thms)
qed

text \<open>
  Claim C8. \<open>add_memory_to_index\<close> returns the length of the user's identifier list as
  loaded before the call; afterwards the index holds the old vectors followed by the new
  embedding and the list holds the old identifiers followed by the new one, so the
  returned slot reads the new identifier, earlier slots read what they read before, and
  an index with as many vectors as identifiers stays so. Successive calls return
  consecutive slots, starting from zero for a user without an index.
\<close>

theorem add_memory_to_index_parallel:
  "fst (add_memory_to_index encode s uid mid tx) = int (length (snd (load_faiss_index s uid)))
   \<and> load_faiss_index (snd (add_memory_to_index encode s uid mid tx)) uid =
       (Some ((case fst (load_faiss_index s uid) of None \<Rightarrow> [] | Some ix \<Rightarrow> ix)
                @ [embed_text encode tx]),
        snd (load_faiss_index s uid) @ [mid])
   \<and> py_getitem (snd (load_faiss_index (snd (add_memory_to_index encode s uid mid tx)) uid))
        (fst (add_memory_to_index encode s uid mid tx)) = Inr mid
   \<and> (\<forall>i < length (snd (load_faiss_index s uid)).
         snd (load_faiss_index (snd (add_memory_to_index encode s uid mid tx)) uid) ! i
           = snd (load_faiss_index s uid) ! i)
   \<and> (parallel_invariant s uid \<longrightarrow>
         parallel_invariant (snd (add_memory_to_index encode s uid mid tx)) uid)
   \<and> fst (add_memories_to_index encode s uid items) =
       map int [length (snd (load_faiss_index s uid)) ..<
                length (snd (load_faiss_index s uid)) + length items]
   \<and> snd (load_faiss_index (snd (add_memories_to_index encode s uid items)) uid) =
       snd (load_faiss_index s uid) @ map fst items"
proof (intro conjI)
  show "fst (add_memory_to_index encode s uid mid tx) = int (length (snd (load_faiss_index s uid)))"
    by (rule add_memory_to_index_fst)
  show "load_faiss_index (snd (add_memory_to_index encode s uid mid tx)) uid =
       (Some ((case fst (load_faiss_index s uid) of None \<Rightarrow> [] | Some ix \<Rightarrow> ix)
                @ [embed_text encode tx]),
        snd (load_faiss_index s uid) @ [mid])"
    by (rule add_memory_to_index_load)
  show "py_getitem (snd (load_faiss_index (snd (add_memory_to_index encode s uid mid tx)) uid))
        (fst (add_memory_to_index encode s uid mid tx)) = Inr mid"
    by (simp add: add_memory_to_index_load add_memory_to_index_fst py_getitem_def)
  show "\<forall>i < length (snd (load_faiss_index s uid)).
         snd (load_faiss_index (snd (add_memory_to_index encode s uid mid tx)) uid) ! i
           = snd (load_faiss_index s uid) ! i"
    by (simp add: add_memory_to_index_load nth_append)
  show "parallel_invariant s uid \<longrightarrow>
         parallel_invariant (snd (add_memory_to_index encode s uid mid tx)) uid"
    by (simp add: add_memory_to_index_invariant)
  show "fst (add_memories_to_index encode s uid items) =
       map int [length (snd (load_faiss_index s uid)) ..<
                length (snd (load_faiss_index s uid)) + length items]"
    using add_memories_to_index_dense by blast
  show "snd (load_faiss_index (snd (add_memories_to_index encode s uid items)) uid) =
       snd (load_faiss_index s uid) @ map fst items"
    using add_memories_to_index_dense by blast
qed

theorem add_memory_to_index_parallel_witness:
  "parallel_invariant demo_state ''u1''
   \<and> fst (add_memory_to_index demo_encode demo_state ''u1'' ''m3'' ''tea'') = 2
   \<and> load_faiss_index (snd (add_memory_to_index demo_encode demo_state ''u1'' ''m3'' ''tea'')) ''u1''
       = (Some [demo_vec, demo_vec, demo_vec], [''m1'', ''m2'', ''m3''])
   \<and> parallel_invariant (snd (add_memory_to_index demo_encode demo_state ''u1'' ''m3'' ''tea'')) ''u1''
   \<and> (0::nat) < length (snd (load_faiss_index demo_state ''u1''))
   \<and> snd (load_faiss_index (snd (add_memory_to_index demo_encode demo_state ''u1'' ''m3'' ''tea''))
          ''u1'') ! 0 = ''m1''
   \<and> fst (add_memories_to_index demo_encode demo_state ''u1'' [(''m3'', ''tea''), (''m4'', ''jam'')])
       = [2, 3]"
proof -
  have inv: "parallel_invariant demo_state ''u1''"
    by (simp add: parallel_invariant_def demo_load)
  have emb: "embed_text demo_encode ''tea'' = demo_vec"
    by (simp add: embed_text_def demo_encode_def)
  have up: "map int [2 ..< 2 + length [(''m3'', ''tea''), (''m4'', ''jam'')]] = [2, 3]"
    by (simp add: upt_rec)
  from add_memory_to_index_parallel [of demo_encode demo_state "''u1''" "''m3''" "''tea''"
      "[(''m3'', ''tea''), (''m4'', ''jam'')]"] inv
  show ?thesis
    unfolding demo_load by (simp add: emb up)
qed

section \<open>Index rebuild\<close>

lemma restamp_map: "restamp i mems rows = map (stamp_row i mems) rows"
proof (induction mems arbitrary: i rows)
  case Nil
  show ?case by (induction rows) simp_all
next
  case (Cons m mems)
  show ?case by (simp add: Cons set_faiss_index_id_def comp_def)
qed

lemma stamp_row_other_fields:
  "\<exists>x. stamp_row i mems row = row\<lparr>faiss_index_id := x\<rparr>"
proof (induction mems arbitrary: i row)
  case Nil
  have "row = row\<lparr>faiss_index_id := faiss_index_id row\<rparr>" by simp
  then show ?case by (metis stamp_row.simps(1))
next
  case (Cons m mems)
  show ?case
  proof (cases "mem_id row = mem_id m")
    case True
    from Cons [of "Suc i" "row\<lparr>faiss_index_id := Some (int i)\<rparr>"] True
    show ?thesis by auto
  next
    case False
    with Cons [of "Suc i" row] show ?thesis by simp
  qed
qed

lemma stamp_row_keeps:
  "mem_id (stamp_row i mems row) = mem_id row"
  "user_id (stamp_row i mems row) = user_id row"
  "memory_type (stamp_row i mems row) = memory_type row"
  "content (stamp_row i mems row) = content row"
  "timestamp (stamp_row i mems row) = timestamp row"
  using stamp_row_other_fields [of i mems row] by auto

lemma stamp_row_miss:
  "mem_id row \<notin> mem_id ` set mems \<Longrightarrow> stamp_row i mems row = row"
  by (induction mems arbitrary: i) auto

lemma stamp_row_hit:
  "distinct (map mem_id mems) \<Longrightarrow> j < length mems \<Longrightarrow> mem_id row = mem_id (mems ! j) \<Longrightarrow>
   faiss_index_id (stamp_row i mems row) = Some (int (i + j))"
proof (induction mems arbitrary: i j row)
  case Nil
  then show ?case by simp
next
  case (Cons m mems)
  show ?case
  proof (cases j)
    case 0
    with Cons.prems have "mem_id row = mem_id m" "mem_id m \<notin> mem_id ` set mems" by auto
    then show ?thesis
      using 0 by (simp add: stamp_row_miss)
  next
    case (Suc j')
    with Cons.prems have j': "j' < length mems" "mem_id row = mem_id (mems ! j')"
      and d: "distinct (map mem_id mems)" "mem_id m \<notin> mem_id ` set mems" by auto
    from j' have "mem_id row \<in> mem_id ` set mems" by auto
    with d(2) have "mem_id row \<noteq> mem_id m" by auto
    then show ?thesis
      using Cons.IH [OF d(1) j', of "Suc i"] Suc by simp
  qed
qed

lemma insort_key_map_commute:
  "insort_key k (g x) (map g xs) = map g (insort_key (\<lambda>y. k (g y)) x xs)"
  by (induction xs) simp_all

lemma sort_key_map_commute:
  "sort_key k (map g xs) = map g (sort_key (\<lambda>y. k (g y)) xs)"
  by (induction xs) (simp_all add: insort_key_map_commute)

lemma get_memories_by_user_restamped:
  "get_memories_by_user (s\<lparr>memories := restamp i mems (memories s)\<rparr>) uid mtype limit
     = map (stamp_row i mems) (get_memories_by_user s uid mtype limit)"
  by (simp add: get_memories_by_user_def restamp_map filter_map comp_def stamp_row_keeps
        sort_key_map_commute take_map Let_def split: option.splits)

lemma get_memories_by_user_save:
  "get_memories_by_user (save_faiss_index s u index ids) uid mtype limit
     = get_memories_by_user s uid mtype limit"
  by (simp add: get_memories_by_user_def save_faiss_index_def)

lemma get_memories_by_user_subset:
  assumes "m \<in> set (get_memories_by_user s uid mtype limit)"
  shows "m \<in> set (memories s)"
proof -
  obtain q where q: "get_memories_by_user s uid mtype limit
      = take limit (sort_key (\<lambda>m. - timestamp m) q)" and sub: "set q \<subseteq> set (memories s)"
    by (auto simp add: get_memories_by_user_def Let_def split: option.splits)
  from assms have "m \<in> set (sort_key (\<lambda>m. - timestamp m) q)"
    unfolding q by (rule in_set_takeD)
  with sub show ?thesis by auto
qed

lemma get_memories_by_user_distinct:
  assumes "distinct (map mem_id (memories s))"
  shows "distinct (map mem_id (get_memories_by_user s uid mtype limit))"
proof -
  have sorted: "distinct (map mem_id (sort_key k xs))" if "distinct (map mem_id xs)"
    for k :: "memory \<Rightarrow> real" and xs
    using that by (simp add: distinct_map)
  have taken: "distinct (map mem_id (take limit xs))" if "distinct (map mem_id xs)" for xs
    using that by (simp add: take_map [symmetric])
  show ?thesis
    using assms
    by (auto simp add: get_memories_by_user_def Let_def distinct_map_filter
          intro!: taken sorted split: option.splits)
qed


lemma rebuild_user_index_unfold:
  "rebuild_user_index encode s uid =
     (if get_memories_by_user s uid (Some ''semantic'') 100 = [] then s
      else save_faiss_index
             (s\<lparr>memories := restamp 0 (get_memories_by_user s uid (Some ''semantic'') 100)
                                (memories s)\<rparr>)
             uid
             (embed_texts encode (map content (get_memories_by_user s uid (Some ''semantic'') 100)))
             (map mem_id (get_memories_by_user s uid (Some ''semantic'') 100)))"
  by (simp add: rebuild_user_index_def Let_def)

lemma rebuild_user_index_query:
  "map mem_id (get_memories_by_user (rebuild_user_index encode s uid) uid mtype limit)
     = map mem_id (get_memories_by_user s uid mtype limit)"
  "map content (get_memories_by_user (rebuild_user_index encode s uid) uid mtype limit)
     = map content (get_memories_by_user s uid mtype limit)"
  by (simp_all add: rebuild_user_index_unfold get_memories_by_user_save
        get_memories_by_user_restamped comp_def stamp_row_keeps)

lemma rebuild_user_index_files:
  assumes "get_memories_by_user s uid (Some ''semantic'') 100 \<noteq> []"
  shows "meta_files (rebuild_user_index encode s uid) uid
           = Some (map mem_id (get_memories_by_user s uid (Some ''semantic'') 100))"
    and "index_files (rebuild_user_index encode s uid) uid
           = Some (embed_texts encode
                     (map content (get_memories_by_user s uid (Some ''semantic'') 100)))"
    and "memories (rebuild_user_index encode s uid)
           = map (stamp_row 0 (get_memories_by_user s uid (Some ''semantic'') 100)) (memories s)"
  using assms by (simp_all add: rebuild_user_index_unfold save_faiss_index_def restamp_map)

lemma rebuild_user_index_twice:
  "meta_files (rebuild_user_index encode (rebuild_user_index encode s uid) uid) uid
     = meta_files (rebuild_user_index encode s uid) uid"
  "index_files (rebuild_user_index encode (rebuild_user_index encode s uid) uid) uid
     = index_files (rebuild_user_index encode s uid) uid"
proof -
  let ?mems = "get_memories_by_user s uid (Some ''semantic'') 100"
  let ?s1 = "rebuild_user_index encode s uid"
  let ?mems1 = "get_memories_by_user ?s1 uid (Some ''semantic'') 100"
  have ids: "map mem_id ?mems1 = map mem_id ?mems" and cts: "map content ?mems1 = map content ?mems"
    by (rule rebuild_user_index_query)+
  show "meta_files (rebuild_user_index encode ?s1 uid) uid = meta_files ?s1 uid"
  proof (cases "?mems = []")
    case True
    then have "?s1 = s" by (simp add: rebuild_user_index_unfold)
    then show ?thesis by simp
  next
    case False
    with ids have "?mems1 \<noteq> []" by (metis map_is_Nil_conv)
    from rebuild_user_index_files(1) [OF this] rebuild_user_index_files(1) [OF False]
    show ?thesis by (simp only: ids)
  qed
  show "index_files (rebuild_user_index encode ?s1 uid) uid = index_files ?s1 uid"
  proof (cases "?mems = []")
    case True
    then have "?s1 = s" by (simp add: rebuild_user_index_unfold)
    then show ?thesis by simp
  next
    case False
    with ids have "?mems1 \<noteq> []" by (metis map_is_Nil_conv)
    from rebuild_user_index_files(2) [OF this] rebuild_user_index_files(2) [OF False]
    show ?thesis by (simp only: cts)
  qed
qed

lemma rebuild_user_index_stamps:
  assumes d: "distinct (map mem_id (memories s))"
    and i: "i < length (get_memories_by_user s uid (Some ''semantic'') 100)"
  shows "\<forall>row\<in>set (memories (rebuild_user_index encode s uid)).
           mem_id row = mem_id (get_memories_by_user s uid (Some ''semantic'') 100 ! i)
             \<longrightarrow> faiss_index_id row = Some (int i)"
    and "\<exists>row\<in>set (memories (rebuild_user_index encode s uid)).
           mem_id row = mem_id (get_memories_by_user s uid (Some ''semantic'') 100 ! i)"
proof -
  let ?mems = "get_memories_by_user s uid (Some ''semantic'') 100"
  from i have ne: "?mems \<noteq> []" by auto
  have dm: "distinct (map mem_id ?mems)"
    using d by (rule get_memories_by_user_distinct)
  have rows: "memories (rebuild_user_index encode s uid) = map (stamp_row 0 ?mems) (memories s)"
    by (rule rebuild_user_index_files(3) [OF ne])
  show "\<forall>row\<in>set (memories (rebuild_user_index encode s uid)).
           mem_id row = mem_id (?mems ! i) \<longrightarrow> faiss_index_id row = Some (int i)"
  proof (intro ballI impI)
    fix row assume "row \<in> set (memories (rebuild_user_index encode s uid))"
      and k: "mem_id row = mem_id (?mems ! i)"
    then obtain r where r: "r \<in> set (memories s)" "row = stamp_row 0 ?mems r"
      unfolding rows by auto
    with k have "mem_id r = mem_id (?mems ! i)" by (simp add: stamp_row_keeps)
    from stamp_row_hit [OF dm i this, of 0] show "faiss_index_id row = Some (int i)"
      by (simp add: r(2))
  qed
  have "?mems ! i \<in> set (memories s)"
    using i by (intro get_memories_by_user_subset [of _ s uid "Some ''semantic''" 100]) simp
  then have "stamp_row 0 ?mems (?mems ! i) \<in> set (memories (rebuild_user_index encode s uid))"
    unfolding rows by simp
  then show "\<exists>row\<in>set (memories (rebuild_user_index encode s uid)).
           mem_id row = mem_id (?mems ! i)"
    by (metis stamp_row_keeps(1))
qed

text \<open>
  Claim C9. Rebuilding twice leaves the identifier list and the index of the first
  rebuild; a rebuild writes the identifiers of the queried memories in query order and,
  identifiers being unique, stamps the row of the memory at position \<open>i\<close> with slot
  \<open>i\<close>; with no memory to index it returns the state unchanged.
\<close>

theorem rebuild_user_index_deterministic:
  "meta_files (rebuild_user_index encode (rebuild_user_index encode s uid) uid) uid
     = meta_files (rebuild_user_index encode s uid) uid
   \<and> index_files (rebuild_user_index encode (rebuild_user_index encode s uid) uid) uid
     = index_files (rebuild_user_index encode s uid) uid
   \<and> (get_memories_by_user s uid (Some ''semantic'') 100 \<noteq> [] \<longrightarrow>
        meta_files (rebuild_user_index encode s uid) uid
          = Some (map mem_id (get_memories_by_user s uid (Some ''semantic'') 100)))
   \<and> (distinct (map mem_id (memories s)) \<longrightarrow>
        (\<forall>i < length (get_memories_by_user s uid (Some ''semantic'') 100).
           (\<exists>row\<in>set (memories (rebuild_user_index encode s uid)).
              mem_id row = mem_id (get_memories_by_user s uid (Some ''semantic'') 100 ! i))
         \<and> (\<forall>row\<in>set (memories (rebuild_user_index encode s uid)).
              mem_id row = mem_id (get_memories_by_user s uid (Some ''semantic'') 100 ! i)
                \<longrightarrow> faiss_index_id row = Some (int i))))
   \<and> (get_memories_by_user s uid (Some ''semantic'') 100 = [] \<longrightarrow>
        rebuild_user_index encode s uid = s)"
proof (intro conjI impI allI)
  show "meta_files (rebuild_user_index encode (rebuild_user_index encode s uid) uid) uid
     = meta_files (rebuild_user_index encode s uid) uid"
    by (rule rebuild_user_index_twice)
  show "index_files (rebuild_user_index encode (rebuild_user_index encode s uid) uid) uid
     = index_files (rebuild_user_index encode s uid) uid"
    by (rule rebuild_user_index_twice)
  show "meta_files (rebuild_user_index encode s uid) uid
          = Some (map mem_id (get_memories_by_user s uid (Some ''semantic'') 100))"
    if "get_memories_by_user s uid (Some ''semantic'') 100 \<noteq> []"
    using that by (rule rebuild_user_index_files)
  show "rebuild_user_index encode s uid = s"
    if "get_memories_by_user s uid (Some ''semantic'') 100 = []"
    using that by (simp add: rebuild_user_index_unfold)
next
  fix i
  assume "distinct (map mem_id (memories s))"
    and "i < length (get_memories_by_user s uid (Some ''semantic'') 100)"
  then show "\<exists>row\<in>set (memories (rebuild_user_index encode s uid)).
              mem_id row = mem_id (get_memories_by_user s uid (Some ''semantic'') 100 ! i)"
    and "\<forall>row\<in>set (memories (rebuild_user_index encode s uid)).
              mem_id row = mem_id (get_memories_by_user s uid (Some ''semantic'') 100 ! i)
                \<longrightarrow> faiss_index_id row = Some (int i)"
    by (rule rebuild_user_index_stamps)+
qed

lemma rebuild_state_query:
  "get_memories_by_user rebuild_state ''u1'' (Some ''semantic'') 100
     = [(demo_memory ''b'' 0.3)\<lparr>timestamp := 100\<rparr>, (demo_memory ''a'' 0.3)\<lparr>timestamp := 0\<rparr>]"
  by (simp add: get_memories_by_user_def rebuild_state_def demo_memory_def)

theorem rebuild_user_index_deterministic_witness:
  "get_memories_by_user rebuild_state ''u1'' (Some ''semantic'') 100 \<noteq> []
   \<and> distinct (map mem_id (memories rebuild_state))
   \<and> meta_files (rebuild_user_index demo_encode rebuild_state ''u1'') ''u1'' = Some [''b'', ''a'']
   \<and> meta_files (rebuild_user_index demo_encode
                   (rebuild_user_index demo_encode rebuild_state ''u1'') ''u1'') ''u1''
       = Some [''b'', ''a'']
   \<and> map (\<lambda>row. (mem_id row, faiss_index_id row))
         (memories (rebuild_user_index demo_encode rebuild_state ''u1''))
       = [(''a'', Some 1), (''b'', Some 0), (''c'', None)]
   \<and> get_memories_by_user empty_state ''u1'' (Some ''semantic'') 100 = []
   \<and> rebuild_user_index demo_encode empty_state ''u1'' = empty_state"
proof -
  have ne: "get_memories_by_user rebuild_state ''u1'' (Some ''semantic'') 100 \<noteq> []"
    by (simp add: rebuild_state_query)
  have d: "distinct (map mem_id (memories rebuild_state))"
    by (simp add: rebuild_state_def demo_memory_def)
  have e: "get_memories_by_user empty_state ''u1'' (Some ''semantic'') 100 = []"
    by (simp add: get_memories_by_user_def empty_state_def)
  note t = rebuild_user_index_deterministic [of demo_encode rebuild_state "''u1''"]
  from t ne have m1: "meta_files (rebuild_user_index demo_encode rebuild_state ''u1'') ''u1''
      = Some [''b'', ''a'']"
    by (simp add: rebuild_state_query demo_memory_def)
  from t m1 have m2: "meta_files (rebuild_user_index demo_encode
                   (rebuild_user_index demo_encode rebuild_state ''u1'') ''u1'') ''u1''
       = Some [''b'', ''a'']"
    by simp
  have st: "map (\<lambda>row. (mem_id row, faiss_index_id row))
         (memories (rebuild_user_index demo_encode rebuild_state ''u1''))
       = [(''a'', Some 1), (''b'', Some 0), (''c'', None)]"
    by (simp add: rebuild_user_index_unfold rebuild_state_query save_faiss_index_def
          set_faiss_index_id_def)
      (simp add: rebuild_state_def demo_memory_def)
  from rebuild_user_index_deterministic [of demo_encode empty_state "''u1''"] e
  have r: "rebuild_user_index demo_encode empty_state ''u1'' = empty_state"
    by blast
  from ne d m1 m2 st e r show ?thesis by blast
qed

section \<open>Prompt assembly\<close>

lemma sections_assemble:
  "(let sections = [s];
        sections = (if p \<noteq> [] then sections @ [p] else sections);
        sections = (if m \<noteq> [] then sections @ [m] else sections);
        sections = (if c \<noteq> [] then sections @ [c] else sections);
        sections = sections @ [q]
    in join sep sections)
   = join sep (s # filter (\<lambda>t. t \<noteq> []) [p, m, c] @ [q])"
  by (simp add: Let_def)

lemma build_prompt_sections:
  "build_prompt q profile mems msgs max_tokens =
     (let r0 = max_tokens - (estimate_tokens SYSTEM_INSTRUCTION + estimate_tokens (query_part q) + 50);
          p = fit_section (build_profile_summary profile) (r0 div 4);
          r1 = r0 - estimate_tokens p;
          m = fit_section (build_memory_context mems) (r1 div 2);
          r2 = r1 - estimate_tokens m;
          c = fit_section (build_session_summary msgs) r2
      in join (nl @ nl)
           (SYSTEM_INSTRUCTION # filter (\<lambda>t. t \<noteq> []) [p, m, c] @ [query_part q]))"
  unfolding build_prompt_def fit_section_def Let_def
  by (rule sections_assemble [unfolded Let_def])

lemma length_le_estimate: "int (length t) \<le> 4 * estimate_tokens t + 3"
  by (simp add: estimate_tokens_def)

lemma estimate_tokens_pos: "1 \<le> estimate_tokens t"
  by (simp add: estimate_tokens_def)

lemma truncate_to_tokens_nonneg:
  assumes "0 \<le> budget"
  shows "int (length t) \<le> budget * 4 \<longrightarrow> truncate_to_tokens t budget = t"
    and "budget * 4 < int (length t) \<longrightarrow>
           truncate_to_tokens t budget = take (nat (budget * 4)) t @ ''...''
           \<and> int (length (truncate_to_tokens t budget)) = budget * 4 + 3"
  using assms by (auto simp add: truncate_to_tokens_def py_slice_to_def Let_def)

lemma fit_section_length:
  assumes "0 \<le> budget"
  shows "int (length (fit_section t budget)) \<le> 4 * budget + 3"
proof (cases "budget < estimate_tokens t")
  case True
  show ?thesis
  proof (cases "int (length t) \<le> budget * 4")
    case le: True
    with truncate_to_tokens_nonneg(1) [OF assms, of t] True show ?thesis
      by (simp add: fit_section_def)
  next
    case False
    with truncate_to_tokens_nonneg(2) [OF assms, of t] True show ?thesis
      by (simp add: fit_section_def)
  qed
next
  case False
  with length_le_estimate [of t] show ?thesis
    by (simp add: fit_section_def)
qed

lemma fit_section_estimate:
  assumes "0 \<le> budget"
  shows "estimate_tokens (fit_section t budget) \<le> max 1 budget"
proof -
  have "int (length (fit_section t budget)) div 4 \<le> budget"
    using fit_section_length [OF assms, of t] by linarith
  then show ?thesis by (simp add: estimate_tokens_def)
qed

lemma length_join:
  "xs \<noteq> [] \<Longrightarrow>
   length (join sep xs) = sum_list (map length xs) + length sep * (length xs - 1)"
  by (induction sep xs rule: join.induct) simp_all

lemma length_assembled:
  "length (join (nl @ nl) (s # filter (\<lambda>t. t \<noteq> []) [p, m, c] @ [q]))
     \<le> length s + length p + length m + length c + length q + 8"
  by (simp add: length_join nl_def)

lemma length_SYSTEM_INSTRUCTION: "length SYSTEM_INSTRUCTION = 362"
  by (simp add: SYSTEM_INSTRUCTION_def nl_def)

lemma budget_arith:
  fixes r0 ep em :: int
  assumes "2 \<le> r0" "1 \<le> ep" "ep \<le> max 1 (r0 div 4)" "1 \<le> em"
    and em: "0 \<le> (r0 - ep) div 2 \<longrightarrow> em \<le> max 1 ((r0 - ep) div 2)"
  shows "0 \<le> (r0 - ep) div 2" and "0 \<le> r0 - ep - em"
proof -
  have r1: "1 \<le> r0 - ep" using assms(1,3) by linarith
  then show h: "0 \<le> (r0 - ep) div 2" by simp
  with em have "em \<le> max 1 ((r0 - ep) div 2)" by simp
  with r1 show "0 \<le> r0 - ep - em" by linarith
qed

lemma build_prompt_length:
  assumes "estimate_tokens SYSTEM_INSTRUCTION + estimate_tokens (query_part q) + 52 \<le> max_tokens"
  shows "int (length (build_prompt q profile mems msgs max_tokens)) \<le> 4 * max_tokens - 177"
proof -
  define r0 where "r0 = max_tokens - (estimate_tokens SYSTEM_INSTRUCTION + estimate_tokens (query_part q) + 50)"
  define p where "p = fit_section (build_profile_summary profile) (r0 div 4)"
  define r1 where "r1 = r0 - estimate_tokens p"
  define m where "m = fit_section (build_memory_context mems) (r1 div 2)"
  define r2 where "r2 = r1 - estimate_tokens m"
  define c where "c = fit_section (build_session_summary msgs) r2"
  have out: "build_prompt q profile mems msgs max_tokens =
      join (nl @ nl) (SYSTEM_INSTRUCTION # filter (\<lambda>t. t \<noteq> []) [p, m, c] @ [query_part q])"
    unfolding build_prompt_sections Let_def r0_def p_def r1_def m_def r2_def c_def ..
  have r0: "2 \<le> r0" using assms by (simp add: r0_def)
  then have b0: "0 \<le> r0 div 4" by simp
  have ep: "estimate_tokens p \<le> max 1 (r0 div 4)"
    unfolding p_def by (rule fit_section_estimate [OF b0])
  have em: "0 \<le> (r0 - estimate_tokens p) div 2 \<longrightarrow>
        estimate_tokens m \<le> max 1 ((r0 - estimate_tokens p) div 2)"
    unfolding m_def r1_def by (auto intro: fit_section_estimate)
  from budget_arith [OF r0 estimate_tokens_pos ep estimate_tokens_pos em]
  have r2: "0 \<le> r2" by (simp add: r2_def r1_def)
  have lc: "int (length c) \<le> 4 * r2 + 3"
    unfolding c_def by (rule fit_section_length [OF r2])
  have "int (length (build_prompt q profile mems msgs max_tokens))
      \<le> int (length SYSTEM_INSTRUCTION) + int (length p) + int (length m) + int (length c)
          + int (length (query_part q)) + 8"
    unfolding out using length_assembled [of SYSTEM_INSTRUCTION p m c "query_part q"] by linarith
  also have "\<dots> \<le> (4 * estimate_tokens SYSTEM_INSTRUCTION + 3) + (4 * estimate_tokens p + 3)
        + (4 * estimate_tokens m + 3) + (4 * r2 + 3) + (4 * estimate_tokens (query_part q) + 3) + 8"
    using length_le_estimate [of SYSTEM_INSTRUCTION] length_le_estimate [of p]
      length_le_estimate [of m] length_le_estimate [of "query_part q"] lc by linarith
  also have "\<dots> = 4 * max_tokens - 177"
    by (simp add: r2_def r1_def r0_def)
  finally show ?thesis .
qed

text \<open>
  Claim C2, as amended. When \<open>max_tokens\<close> is at least the reserved amount (the estimates
  of the system instruction and of the query section, plus the buffer of 50) plus 2, the
  assembled prompt measures at most \<open>max_tokens\<close>, both in the specification's
  \<open>ceil(len / 4)\<close> and in the code's own estimate. For a budget that is not negative,
  truncation returns a text of at most \<open>budget * 4\<close> characters unchanged, and otherwise
  its first \<open>budget * 4\<close> characters followed by the marker.
\<close>

theorem build_prompt_within_budget:
  "(estimate_tokens SYSTEM_INSTRUCTION + estimate_tokens (query_part q) + 52 \<le> max_tokens \<longrightarrow>
      approx_tokens (build_prompt q profile mems msgs max_tokens) \<le> max_tokens
      \<and> estimate_tokens (build_prompt q profile mems msgs max_tokens) \<le> max_tokens)
   \<and> (0 \<le> budget \<longrightarrow>
        (int (length t) \<le> budget * 4 \<longrightarrow> truncate_to_tokens t budget = t)
        \<and> (budget * 4 < int (length t) \<longrightarrow>
             truncate_to_tokens t budget = take (nat (budget * 4)) t @ ''...''
             \<and> int (length (truncate_to_tokens t budget)) = budget * 4 + 3))"
proof (intro conjI impI)
  assume a: "estimate_tokens SYSTEM_INSTRUCTION + estimate_tokens (query_part q) + 52 \<le> max_tokens"
  let ?n = "length (build_prompt q profile mems msgs max_tokens)"
  from build_prompt_length [OF a, of profile mems msgs]
  have n: "int ?n \<le> 4 * max_tokens - 177" .
  then have "real ?n / 4 \<le> real_of_int max_tokens"
    by linarith
  then show "approx_tokens (build_prompt q profile mems msgs max_tokens) \<le> max_tokens"
    by (simp add: approx_tokens_def ceiling_le_iff)
  have "1 \<le> max_tokens"
    using a estimate_tokens_pos [of SYSTEM_INSTRUCTION] estimate_tokens_pos [of "query_part q"]
    by linarith
  moreover have "int ?n div 4 \<le> max_tokens" using n by linarith
  ultimately show "estimate_tokens (build_prompt q profile mems msgs max_tokens) \<le> max_tokens"
    by (simp add: estimate_tokens_def)
next
  assume b: "0 \<le> budget"
  show "truncate_to_tokens t budget = t" if "int (length t) \<le> budget * 4"
    using that truncate_to_tokens_nonneg(1) [OF b, of t] by simp
  show "truncate_to_tokens t budget = take (nat (budget * 4)) t @ ''...''"
    and "int (length (truncate_to_tokens t budget)) = budget * 4 + 3"
    if "budget * 4 < int (length t)"
    using that truncate_to_tokens_nonneg(2) [OF b, of t] by simp_all
qed

lemma estimate_SYSTEM_INSTRUCTION: "estimate_tokens SYSTEM_INSTRUCTION = 90"
  by (simp add: estimate_tokens_def length_SYSTEM_INSTRUCTION)

lemma estimate_query_part: "estimate_tokens (query_part q) = (int (length q) + 18) div 4"
  by (simp add: estimate_tokens_def query_part_def nl_def)

lemma fit_section_empty_negative: "budget < 0 \<Longrightarrow> fit_section [] budget = ''...''"
  by (simp add: fit_section_def estimate_tokens_def truncate_to_tokens_def py_slice_to_def)

lemma build_prompt_negative_budget:
  assumes "max_tokens < estimate_tokens SYSTEM_INSTRUCTION + estimate_tokens (query_part q) + 50"
  shows "build_prompt q None [] [] max_tokens =
           SYSTEM_INSTRUCTION @ nl @ nl @ ''...'' @ nl @ nl @ ''...'' @ nl @ nl @ ''...''
             @ nl @ nl @ query_part q"
proof -
  define r0 where "r0 = max_tokens - (estimate_tokens SYSTEM_INSTRUCTION + estimate_tokens (query_part q) + 50)"
  have r0: "r0 < 0" using assms by (simp add: r0_def)
  have e: "estimate_tokens ''...'' = 1" by (simp add: estimate_tokens_def)
  have p: "fit_section [] (r0 div 4) = ''...''"
    using r0 by (intro fit_section_empty_negative) linarith
  have m: "fit_section [] ((r0 - 1) div 2) = ''...''"
    using r0 by (intro fit_section_empty_negative) linarith
  have c: "fit_section [] (r0 - 1 - 1) = ''...''"
    using r0 by (intro fit_section_empty_negative) linarith
  have empty: "build_profile_summary None = []" "build_memory_context [] = []"
    "build_session_summary [] = []"
    by (simp_all add: build_profile_summary_def build_memory_context_def build_session_summary_def)
  show ?thesis
    unfolding build_prompt_sections Let_def empty r0_def [symmetric] p e m c
    by simp
qed

text \<open>
  With \<open>max_tokens = 50\<close> the prompt measures 100 tokens: the system instruction and the
  query section, which are never shortened, measure 96 by themselves.
\<close>

theorem build_prompt_exceeds_counterexample:
  "approx_tokens (build_prompt ''hi'' None [] [] 50) = 100
   \<and> \<not> approx_tokens (build_prompt ''hi'' None [] [] 50) \<le> 50 + int (length ''...'')
   \<and> 50 + int (length ''...'') < approx_tokens (SYSTEM_INSTRUCTION @ nl @ nl @ query_part ''hi'')"
proof -
  have "build_prompt ''hi'' None [] [] 50 =
           SYSTEM_INSTRUCTION @ nl @ nl @ ''...'' @ nl @ nl @ ''...'' @ nl @ nl @ ''...''
             @ nl @ nl @ query_part ''hi''"
    by (rule build_prompt_negative_budget)
      (simp add: estimate_SYSTEM_INSTRUCTION estimate_query_part)
  then have "approx_tokens (build_prompt ''hi'' None [] [] 50) = 100"
    by (simp add: approx_tokens_def length_SYSTEM_INSTRUCTION query_part_def nl_def)
  moreover have "approx_tokens (SYSTEM_INSTRUCTION @ nl @ nl @ query_part ''hi'') = 96"
    by (simp add: approx_tokens_def length_SYSTEM_INSTRUCTION query_part_def nl_def)
  ultimately show ?thesis by simp
qed

text \<open>The budget of 200 tokens of the specification's scenario, and both truncation cases.\<close>

theorem build_prompt_within_budget_witness:
  "estimate_tokens SYSTEM_INSTRUCTION + estimate_tokens (query_part ''hi'') + 52 \<le> 200
   \<and> approx_tokens (build_prompt ''hi'' (Some demo_profile) demo_candidates demo_messages 200) \<le> 200
   \<and> estimate_tokens (build_prompt ''hi'' (Some demo_profile) demo_candidates demo_messages 200) \<le> 200
   \<and> (0::int) \<le> 2
   \<and> 2 * 4 < int (length ''abcdefghijk'')
   \<and> truncate_to_tokens ''abcdefghijk'' 2 = ''abcdefgh...''
   \<and> int (length ''abc'') \<le> 2 * 4
   \<and> truncate_to_tokens ''abc'' 2 = ''abc''"
proof -
  have h: "estimate_tokens SYSTEM_INSTRUCTION + estimate_tokens (query_part ''hi'') + 52 \<le> 200"
    by (simp add: estimate_SYSTEM_INSTRUCTION estimate_query_part)
  from build_prompt_within_budget [of "''hi''" 200 "Some demo_profile" demo_candidates
      demo_messages 2 "''abcdefghijk''"]
    build_prompt_within_budget [of "''hi''" 200 "Some demo_profile" demo_candidates
      demo_messages 2 "''abc''"] h
  show ?thesis by simp
qed

lemma upper_semantic: "str_upper ''semantic'' = ''SEMANTIC''"
  by code_simp

lemma demo_memory_context:
  "build_memory_context demo_candidates = ''RELEVANT MEMORIES:'' @ nl @ ''[SEMANTIC] note''"
  by (simp add: build_memory_context_def demo_candidates_def make_candidate_def demo_memory_def
        upper_semantic)

text \<open>
  Claim C7 states that each section is capped at its share of the remaining budget and
  that empty sections are omitted. The code does not do so once the reserved amount
  exceeds \<open>max_tokens\<close>: the budgets are negative, \<^verbatim>\<open>text[:max_chars]\<close> then only drops
  \<open>-max_chars\<close> characters from the end, and the marker is appended even to an empty text.
  With no profile, no memories and no session turns, \<open>max_tokens = 100\<close> (or the default
  1800 and a query of 6700 characters) gives three sections that hold only the marker; with
  a budget of \<open>-1\<close> tokens the memory context keeps all but its last four characters.
\<close>

theorem build_prompt_uncapped_sections:
  "build_profile_summary None = [] \<and> build_memory_context [] = [] \<and> build_session_summary [] = []
   \<and> build_prompt ''hi'' None [] [] 100 =
        SYSTEM_INSTRUCTION @ nl @ nl @ ''...'' @ nl @ nl @ ''...'' @ nl @ nl @ ''...''
          @ nl @ nl @ query_part ''hi''
   \<and> build_prompt (replicate 6700 (CHR ''a'')) None [] [] 1800 =
        SYSTEM_INSTRUCTION @ nl @ nl @ ''...'' @ nl @ nl @ ''...'' @ nl @ nl @ ''...''
          @ nl @ nl @ query_part (replicate 6700 (CHR ''a''))
   \<and> build_prompt ''hi'' None demo_candidates [] 144 =
        SYSTEM_INSTRUCTION @ nl @ nl @ ''...'' @ nl @ nl
          @ ''RELEVANT MEMORIES:'' @ nl @ ''[SEMANTIC] ...'' @ nl @ nl @ ''...''
          @ nl @ nl @ query_part ''hi''"
proof (intro conjI)
  show "build_profile_summary None = []" "build_memory_context [] = []"
    "build_session_summary [] = []"
    by (simp_all add: build_profile_summary_def build_memory_context_def build_session_summary_def)
  show "build_prompt ''hi'' None [] [] 100 =
        SYSTEM_INSTRUCTION @ nl @ nl @ ''...'' @ nl @ nl @ ''...'' @ nl @ nl @ ''...''
          @ nl @ nl @ query_part ''hi''"
    by (rule build_prompt_negative_budget)
      (simp add: estimate_SYSTEM_INSTRUCTION estimate_query_part)
  show "build_prompt (replicate 6700 (CHR ''a'')) None [] [] 1800 =
        SYSTEM_INSTRUCTION @ nl @ nl @ ''...'' @ nl @ nl @ ''...'' @ nl @ nl @ ''...''
          @ nl @ nl @ query_part (replicate 6700 (CHR ''a''))"
    by (rule build_prompt_negative_budget)
      (simp add: estimate_SYSTEM_INSTRUCTION estimate_query_part)
  have e: "estimate_tokens ''...'' = 1" by (simp add: estimate_tokens_def)
  have r0: "144 - (estimate_tokens SYSTEM_INSTRUCTION + estimate_tokens (query_part ''hi'') + 50) = - 1"
    by (simp add: estimate_SYSTEM_INSTRUCTION estimate_query_part)
  have p: "fit_section (build_profile_summary None) (- 1 div 4) = ''...''"
    by (simp add: build_profile_summary_def fit_section_empty_negative)
  have m: "fit_section (build_memory_context demo_candidates) ((- 1 - 1) div 2)
      = ''RELEVANT MEMORIES:'' @ nl @ ''[SEMANTIC] ...''"
    unfolding demo_memory_context
    by (simp add: fit_section_def estimate_tokens_def truncate_to_tokens_def py_slice_to_def nl_def)
  have em: "estimate_tokens (''RELEVANT MEMORIES:'' @ nl @ ''[SEMANTIC] ...'') = 8"
    by (simp add: estimate_tokens_def nl_def)
  have c: "fit_section (build_session_summary []) (- 1 - 1 - 8) = ''...''"
    by (simp add: build_session_summary_def fit_section_empty_negative)
  show "build_prompt ''hi'' None demo_candidates [] 144 =
        SYSTEM_INSTRUCTION @ nl @ nl @ ''...'' @ nl @ nl
          @ ''RELEVANT MEMORIES:'' @ nl @ ''[SEMANTIC] ...'' @ nl @ nl @ ''...''
          @ nl @ nl @ query_part ''hi''"
    unfolding build_prompt_sections Let_def r0 p e m em c
    by (simp add: nl_def)
qed

end
